theory Spec2Isabelle
  imports Main "HOL-Library.AList"
begin

section \<open>Python values, exceptions and futures\<close>

text \<open>
  Decoded JSON frames and everything the client mirrors are Python values. A JSON object is a
  \<open>dict\<close> with string keys, kept as an association list in insertion order (lookup takes the
  first entry of a key). Numbers are integers; a frame with a fractional number is outside
  this model.
\<close>

datatype pyval =
    PNone
  | PBool bool
  | PInt int
  | PStr string
  | PList "pyval list"
  | PDict "(string \<times> pyval) list"

text \<open>The payload of a \<open>PyLGTVCmdException\<close> message (the source formats them into text).\<close>

datatype cmd_msg =
    NotConnected
  | InvalidResponse pyval
  | RequestFailed pyval
  | NoInputCommand

text \<open>
  The exceptions the client raises or lets through. \<open>CancelledError\<close> derives from
  \<open>BaseException\<close>, so \<open>except Exception\<close> does not catch it; the three \<open>PyLGTVCmd\<close>
  classes form a chain \<open>PyLGTVServiceNotFoundError < PyLGTVCmdError < PyLGTVCmdException\<close>.
\<close>

datatype exn =
    CancelledError
  | PyLGTVPairException
  | PyLGTVCmdException cmd_msg
  | PyLGTVCmdError pyval
  | PyLGTVServiceNotFoundError pyval
  | KeyError pyval
  | AttributeError
  | TypeError
  | InvalidStateError
  | TimeoutError
  | ConnectionClosedError
  | OSError

type_synonym 'a result = "exn + 'a"

fun is_Exception :: "exn \<Rightarrow> bool" where
  "is_Exception CancelledError = False"
| "is_Exception _ = True"

fun is_PyLGTVCmdException :: "exn \<Rightarrow> bool" where
  "is_PyLGTVCmdException (PyLGTVCmdException _) = True"
| "is_PyLGTVCmdException (PyLGTVCmdError _) = True"
| "is_PyLGTVCmdException (PyLGTVServiceNotFoundError _) = True"
| "is_PyLGTVCmdException _ = False"

fun is_PyLGTVCmdError :: "exn \<Rightarrow> bool" where
  "is_PyLGTVCmdError (PyLGTVCmdError _) = True"
| "is_PyLGTVCmdError (PyLGTVServiceNotFoundError _) = True"
| "is_PyLGTVCmdError _ = False"

fun is_PyLGTVServiceNotFoundError :: "exn \<Rightarrow> bool" where
  "is_PyLGTVServiceNotFoundError (PyLGTVServiceNotFoundError _) = True"
| "is_PyLGTVServiceNotFoundError _ = False"

subsection \<open>Operations on values\<close>

text \<open>\<open>d.get(k)\<close>: \<open>None\<close> for a missing key; only a dict has the method.\<close>

fun py_get :: "pyval \<Rightarrow> string \<Rightarrow> pyval result" where
  "py_get (PDict d) k = (case map_of d k of None \<Rightarrow> Inr PNone | Some v \<Rightarrow> Inr v)"
| "py_get _ k = Inl AttributeError"

text \<open>\<open>d[k]\<close> with a string \<open>k\<close>: \<open>KeyError\<close> on a dict without the key, \<open>TypeError\<close> elsewhere.\<close>

fun py_getitem :: "pyval \<Rightarrow> string \<Rightarrow> pyval result" where
  "py_getitem (PDict d) k = (case map_of d k of None \<Rightarrow> Inl (KeyError (PStr k)) | Some v \<Rightarrow> Inr v)"
| "py_getitem _ k = Inl TypeError"

text \<open>Truth value of an object, as \<open>not\<close>, \<open>or\<close> and \<open>if\<close> take it.\<close>

fun truthy :: "pyval \<Rightarrow> bool" where
  "truthy PNone = False"
| "truthy (PBool b) = b"
| "truthy (PInt n) = (n \<noteq> 0)"
| "truthy (PStr s) = (s \<noteq> [])"
| "truthy (PList xs) = (xs \<noteq> [])"
| "truthy (PDict d) = (d \<noteq> [])"

text \<open>\<open>for x in v\<close>: the elements of a list, the keys of a dict, the characters of a string.\<close>

fun py_iter :: "pyval \<Rightarrow> pyval list result" where
  "py_iter (PList xs) = Inr xs"
| "py_iter (PDict d) = Inr (map (\<lambda>(k, v). PStr k) d)"
| "py_iter (PStr s) = Inr (map (\<lambda>c. PStr [c]) s)"
| "py_iter _ = Inl TypeError"

subsection \<open>Dictionaries keyed by values\<close>

text \<open>
  \<open>_apps\<close> and \<open>_extinputs\<close> are dicts keyed by whatever the frame carries as identifier.
  A key must be hashable; \<open>True\<close> and \<open>1\<close> (and \<open>False\<close> and \<open>0\<close>) are the same key. Storing
  under a key already present keeps the old key object and its position.
\<close>

type_synonym pydict = "(pyval \<times> pyval) list"

fun hashable :: "pyval \<Rightarrow> bool" where
  "hashable (PList _) = False"
| "hashable (PDict _) = False"
| "hashable _ = True"

fun pykey :: "pyval \<Rightarrow> pyval" where
  "pykey (PBool b) = PInt (if b then 1 else 0)"
| "pykey v = v"

definition key_eq :: "pyval \<Rightarrow> pyval \<Rightarrow> bool" where
  "key_eq a b = (pykey a = pykey b)"

fun dict_lookup :: "pydict \<Rightarrow> pyval \<Rightarrow> pyval option" where
  "dict_lookup [] k = None"
| "dict_lookup ((k', v') # d) k = (if key_eq k' k then Some v' else dict_lookup d k)"

fun dict_store :: "pydict \<Rightarrow> pyval \<Rightarrow> pyval \<Rightarrow> pydict" where
  "dict_store [] k v = [(k, v)]"
| "dict_store ((k', v') # d) k v =
     (if key_eq k' k then (k', v) # d else (k', v') # dict_store d k v)"

fun dict_remove :: "pydict \<Rightarrow> pyval \<Rightarrow> pydict" where
  "dict_remove [] k = []"
| "dict_remove ((k', v') # d) k = (if key_eq k' k then d else (k', v') # dict_remove d k)"

text \<open>\<open>d[k] = v\<close> and \<open>del d[k]\<close> with their exceptions.\<close>

definition dict_setitem :: "pydict \<Rightarrow> pyval \<Rightarrow> pyval \<Rightarrow> pydict result" where
  "dict_setitem d k v = (if hashable k then Inr (dict_store d k v) else Inl TypeError)"

definition dict_delitem :: "pydict \<Rightarrow> pyval \<Rightarrow> pydict result" where
  "dict_delitem d k =
     (if \<not> hashable k then Inl TypeError
      else if dict_lookup d k = None then Inl (KeyError k)
      else Inr (dict_remove d k))"

text \<open>
  A dict has one entry per key: the keys of a well-formed association list are distinct
  (as keys, so \<open>True\<close> and \<open>1\<close> count once).
\<close>

fun dict_keys :: "pydict \<Rightarrow> pyval list" where
  "dict_keys [] = []"
| "dict_keys ((k, v) # d) = pykey k # dict_keys d"

definition dict_ok :: "pydict \<Rightarrow> bool" where
  "dict_ok d = distinct (dict_keys d)"

subsection \<open>Futures\<close>

text \<open>
  An \<open>asyncio.Future\<close> is an object shared between the table that holds it and the coroutine
  that awaits it, so futures live in a store indexed by an address. \<open>set_result\<close> and
  \<open>set_exception\<close> on a future that is done raise \<open>InvalidStateError\<close>; \<open>cancel\<close> on a
  future that is done does nothing.
\<close>

datatype fstate = Pending | Resolved pyval | Raised exn | Cancelled

type_synonym fid = nat

fun is_done :: "fstate \<Rightarrow> bool" where
  "is_done Pending = False"
| "is_done _ = True"

fun set_result :: "fstate \<Rightarrow> pyval \<Rightarrow> fstate result" where
  "set_result Pending v = Inr (Resolved v)"
| "set_result _ v = Inl InvalidStateError"

fun set_exception :: "fstate \<Rightarrow> exn \<Rightarrow> fstate result" where
  "set_exception Pending e = Inr (Raised e)"
| "set_exception _ e = Inl InvalidStateError"

fun cancel :: "fstate \<Rightarrow> fstate" where
  "cancel Pending = Cancelled"
| "cancel f = f"

section \<open>The client object\<close>

text \<open>
  The fields of \<open>WebOsClient\<close> (the leading underscore of the mirrored fields dropped; each
  has a read-only property of the same name that returns it). A callback is an opaque
  handle of a Python callable, a websocket an opaque handle of a connection. \<open>heap\<close> is the
  store of futures and \<open>next_fid\<close> the next free address. \<open>volume_step_lock\<close> says whether the
  lock \<open>_volume_step_lock\<close> is held, and \<open>volume_step_delay\<close> is the delay in milliseconds. Five
  logs record what the client does to the world: \<open>sent\<close> the frames written to the main
  connection, \<open>input_sent\<close> those written to the input connection, \<open>notified\<close> the
  state-update callbacks called, \<open>closed\<close> the connections closed, \<open>slept\<close> the pauses
  (in milliseconds) slept through by \<open>_volume_step\<close>.
\<close>

type_synonym callback = nat
type_synonym websocket = nat

record client =
  client_key :: pyval
  command_count :: int
  ping_interval :: "nat option"
  connect_result :: "fid option"
  connection :: "websocket option"
  input_connection :: "websocket option"
  callbacks :: "(int \<times> callback) list"
  futures :: "(int \<times> fid) list"
  power_state :: pyval
  current_appId :: pyval
  muted :: pyval
  volume :: pyval
  current_channel :: pyval
  channel_info :: pyval
  channels :: pyval
  apps :: pydict
  extinputs :: pydict
  system_info :: pyval
  software_info :: pyval
  sound_output :: pyval
  picture_settings :: pyval
  state_update_callbacks :: "callback list"
  doStateUpdate :: bool
  volume_step_delay :: "int option"
  heap :: "fid \<Rightarrow> fstate"
  next_fid :: fid
  sent :: "pyval list"
  input_sent :: "string list"
  notified :: "callback list"
  closed :: "websocket list"
  volume_step_lock :: bool
  slept :: "int list"

text \<open>\<open>__init__\<close>.\<close>

definition init_client :: "pyval \<Rightarrow> nat option \<Rightarrow> int option \<Rightarrow> client" where
  "init_client key interval delay_ms =
     \<lparr> client_key = key, command_count = 0, ping_interval = interval,
       connect_result = None, connection = None, input_connection = None,
       callbacks = [], futures = [],
       power_state = PDict [], current_appId = PNone, muted = PNone, volume = PNone,
       current_channel = PNone, channel_info = PNone, channels = PNone,
       apps = [], extinputs = [], system_info = PNone, software_info = PNone,
       sound_output = PNone, picture_settings = PNone,
       state_update_callbacks = [], doStateUpdate = False,
       volume_step_delay = delay_ms,
       heap = (\<lambda>_. Pending), next_fid = 0, sent = [], input_sent = [],
       notified = [], closed = [], volume_step_lock = False, slept = [] \<rparr>"

section \<open>The request facade\<close>

text \<open>
  The client runs on one event loop: between two \<open>await\<close>s a coroutine runs alone, and at an
  \<open>await\<close> the other tasks run. What the world does at an \<open>await\<close> of \<open>request\<close> is an
  argument of the model: \<open>send_io\<close> is how \<open>connection.send\<close> ends (\<open>None\<close>: the frame went
  out), \<open>meanwhile\<close> is what the other tasks do to the client while the caller is suspended on
  its future, and \<open>cancelled\<close> says that the caller's task was cancelled while it waited.
\<close>

record req_env =
  send_io :: "exn option"
  meanwhile :: "client \<Rightarrow> client"
  cancelled :: bool

text \<open>A call either returns or raises (\<open>Returned\<close>), or stays suspended on its future.\<close>

datatype 'a outcome = Waiting client | Returned "'a result" client

definition next_uid :: "int option \<Rightarrow> client \<Rightarrow> int \<times> client" where
  "next_uid uid s =
     (case uid of
        None \<Rightarrow> (command_count s, s\<lparr>command_count := command_count s + 1\<rparr>)
      | Some u \<Rightarrow> (u, s))"

definition build_message :: "int \<Rightarrow> string \<Rightarrow> string \<Rightarrow> pyval \<Rightarrow> pyval" where
  "build_message uid request_type uri payload =
     PDict [(''id'', PInt uid), (''type'', PStr request_type),
            (''uri'', PStr (''ssap://'' @ uri)), (''payload'', payload)]"

definition command ::
  "exn option \<Rightarrow> string \<Rightarrow> string \<Rightarrow> pyval \<Rightarrow> int option \<Rightarrow> client \<Rightarrow> unit result \<times> client" where
  "command io request_type uri payload uid s =
     (let (uid', s1) = next_uid uid s;
          payload' = (if payload = PNone then PDict [] else payload);
          message = build_message uid' request_type uri payload'
      in if connection s1 = None then (Inl (PyLGTVCmdException NotConnected), s1)
         else (case io of
                 None \<Rightarrow> (Inr (), s1\<lparr>sent := sent s1 @ [message]\<rparr>)
               | Some e \<Rightarrow> (Inl e, s1)))"

text \<open>\<open>del self.futures[uid]\<close>.\<close>

definition del_future :: "int \<Rightarrow> client \<Rightarrow> unit result \<times> client" where
  "del_future uid s =
     (if map_of (futures s) uid = None then (Inl (KeyError (PInt uid)), s)
      else (Inr (), s\<lparr>futures := AList.delete uid (futures s)\<rparr>))"

text \<open>\<open>if uid in self.futures: del self.futures[uid]\<close>.\<close>

definition discard_future :: "int \<Rightarrow> client \<Rightarrow> client" where
  "discard_future uid s =
     (if map_of (futures s) uid \<noteq> None then s\<lparr>futures := AList.delete uid (futures s)\<rparr>
      else s)"

text \<open>The head of \<open>request\<close>: the identifier, a new future, its entry in the table.\<close>

definition request_begin :: "int option \<Rightarrow> client \<Rightarrow> int \<times> fid \<times> client" where
  "request_begin uid s =
     (let (uid', s1) = next_uid uid s;
          res = next_fid s1;
          s2 = s1\<lparr>heap := (heap s1)(res := Pending), next_fid := Suc res\<rparr>
      in (uid', res, s2\<lparr>futures := AList.update uid' res (futures s2)\<rparr>))"

text \<open>The first \<open>try\<close>: send, and on a cancellation or a command exception drop the entry.\<close>

definition request_send ::
  "exn option \<Rightarrow> string \<Rightarrow> string \<Rightarrow> pyval \<Rightarrow> int \<Rightarrow> client \<Rightarrow> unit result \<times> client" where
  "request_send io cmd_type uri payload uid s =
     (case command io cmd_type uri payload (Some uid) s of
        (Inr u, s1) \<Rightarrow> (Inr (), s1)
      | (Inl e, s1) \<Rightarrow>
          if e = CancelledError \<or> is_PyLGTVCmdException e then
            (case del_future uid s1 of
               (Inl k, s2) \<Rightarrow> (Inl k, s2)
             | (Inr u, s2) \<Rightarrow> (Inl e, s2))
          else (Inl e, s1))"

text \<open>
  The second \<open>try\<close>, \<open>response = await res\<close>, and the \<open>del\<close> after it. Cancelling the caller's
  task cancels the future it waits on and raises \<open>CancelledError\<close> at the \<open>await\<close>; a future
  that was cancelled (by the teardown) raises it too. A pending future keeps the caller
  suspended.
\<close>

definition request_await :: "bool \<Rightarrow> int \<Rightarrow> fid \<Rightarrow> client \<Rightarrow> pyval outcome" where
  "request_await cancel_task uid res s =
     (if cancel_task then
        Returned (Inl CancelledError)
          (discard_future uid (s\<lparr>heap := (heap s)(res := cancel (heap s res))\<rparr>))
      else
        (case heap s res of
           Pending \<Rightarrow> Waiting s
         | Cancelled \<Rightarrow> Returned (Inl CancelledError) (discard_future uid s)
         | Raised e \<Rightarrow>
             if e = CancelledError then Returned (Inl CancelledError) (discard_future uid s)
             else Returned (Inl e) s
         | Resolved response \<Rightarrow>
             (case del_future uid s of
                (Inl k, s1) \<Rightarrow> Returned (Inl k) s1
              | (Inr u, s1) \<Rightarrow> Returned (Inr response) s1)))"

definition rbind :: "'a result \<Rightarrow> ('a \<Rightarrow> 'b result) \<Rightarrow> 'b result" where
  "rbind r f = (case r of Inl e \<Rightarrow> Inl e | Inr x \<Rightarrow> f x)"

text \<open>The rest of \<open>request\<close>: what the reply means.\<close>

definition request_reply :: "pyval \<Rightarrow> pyval result" where
  "request_reply response =
     rbind (py_get response ''payload'') (\<lambda>payload.
       if payload = PNone then Inl (PyLGTVCmdException (InvalidResponse response))
       else
         rbind (py_get payload ''returnValue'') (\<lambda>rv.
         rbind (if truthy rv then Inr rv else py_get payload ''subscribed'') (\<lambda>returnValue.
         rbind (py_get response ''type'') (\<lambda>ty.
           if ty = PStr ''error'' then
             rbind (py_get response ''error'') (\<lambda>error.
               if error = PStr ''404 no such service or method''
               then Inl (PyLGTVServiceNotFoundError error)
               else Inl (PyLGTVCmdError response))
           else if returnValue = PNone then Inl (PyLGTVCmdException (InvalidResponse response))
           else if \<not> truthy returnValue then Inl (PyLGTVCmdException (RequestFailed response))
           else Inr payload))))"

definition request ::
  "req_env \<Rightarrow> string \<Rightarrow> pyval \<Rightarrow> string \<Rightarrow> int option \<Rightarrow> client \<Rightarrow> pyval outcome" where
  "request env uri payload cmd_type uid s =
     (let (uid', res, s1) = request_begin uid s in
      case request_send (send_io env) cmd_type uri payload uid' s1 of
        (Inl e, s2) \<Rightarrow> Returned (Inl e) s2
      | (Inr u, s2) \<Rightarrow>
          (case request_await (cancelled env) uid' res (meanwhile env s2) of
             Waiting s3 \<Rightarrow> Waiting s3
           | Returned (Inl e) s3 \<Rightarrow> Returned (Inl e) s3
           | Returned (Inr response) s3 \<Rightarrow> Returned (request_reply response) s3))"

text \<open>
  \<open>request\<close> from its \<open>await res\<close> on, for a call that other tasks see suspended: the
  second \<open>try\<close> and the reading of the reply.
\<close>

definition request_resume :: "bool \<Rightarrow> int \<Rightarrow> fid \<Rightarrow> client \<Rightarrow> pyval outcome" where
  "request_resume cancel_task uid res s =
     (case request_await cancel_task uid res s of
        Waiting s3 \<Rightarrow> Waiting s3
      | Returned (Inl e) s3 \<Rightarrow> Returned (Inl e) s3
      | Returned (Inr response) s3 \<Rightarrow> Returned (request_reply response) s3)"

text \<open>
  \<open>set_volume\<close>. The endpoint table \<open>ep\<close> is a module of its own; the service path
  \<open>ep.SET_VOLUME\<close> is an argument here.
\<close>

definition set_volume :: "string \<Rightarrow> req_env \<Rightarrow> int \<Rightarrow> client \<Rightarrow> pyval outcome" where
  "set_volume SET_VOLUME env vol s =
     (let vol' = max 0 vol
      in request env SET_VOLUME (PDict [(''volume'', PInt vol')]) ''request'' None s)"

text \<open>The client a call leaves behind, suspended or not.\<close>

fun state_of :: "'a outcome \<Rightarrow> client" where
  "state_of (Waiting s) = s"
| "state_of (Returned r s) = s"

fun returned :: "'a outcome \<Rightarrow> bool" where
  "returned (Returned r s) = True"
| "returned (Waiting s) = False"

fun raised :: "'a outcome \<Rightarrow> exn option" where
  "raised (Returned (Inl e) s) = Some e"
| "raised _ = None"

section \<open>The inbound dispatcher and its delivery workers\<close>

text \<open>
  The locals of \<open>consumer_handler\<close>: a queue and a task per identifier that has a callback.
  The task runs \<open>callback_handler(queue, callback, future)\<close> with the callback and the future
  it was created with.
\<close>

record dispatcher =
  callback_queues :: "(int \<times> pyval list) list"
  callback_tasks :: "(int \<times> callback \<times> fid option) list"

definition no_dispatch :: dispatcher where
  "no_dispatch = \<lparr> callback_queues = [], callback_tasks = [] \<rparr>"

text \<open>
  The two tables are dicts, kept as association lists in insertion order and keyed by the
  integers \<open>command_count\<close> hands out. The \<open>id\<close> of a frame is any
  value: an integer (or a bool, equal to 0 or 1) can be a key of the table, \<open>None\<close> or a string
  is a key that is never there, a list or a dict is not hashable.
\<close>

fun table_key :: "pyval \<Rightarrow> int option result" where
  "table_key (PInt n) = Inr (Some n)"
| "table_key (PBool b) = Inr (Some (if b then 1 else 0))"
| "table_key PNone = Inr None"
| "table_key (PStr s) = Inr None"
| "table_key _ = Inl TypeError"

definition table_get :: "(int \<times> 'a) list \<Rightarrow> int option \<Rightarrow> 'a option" where
  "table_get t k = (case k of None \<Rightarrow> None | Some uid \<Rightarrow> map_of t uid)"

text \<open>
  The body of the \<open>async for\<close> of \<open>consumer_handler\<close> for one decoded frame. An exception
  other than a closed connection or a cancellation ends the handler with it.
\<close>

definition consumer_step :: "pyval \<Rightarrow> dispatcher \<times> client \<Rightarrow> exn option \<times> dispatcher \<times> client" where
  "consumer_step msg ds =
     (let (d, s) = ds in
      if callbacks s = [] \<and> futures s = [] then (None, d, s)
      else
        (case py_get msg ''id'' of
           Inl e \<Rightarrow> (Some e, d, s)
         | Inr uidv \<Rightarrow>
             (case table_key uidv of
                Inl e \<Rightarrow> (Some e, d, s)
              | Inr k \<Rightarrow>
                  (let callback = table_get (callbacks s) k;
                       future = table_get (futures s) k
                   in case (k, callback) of
                        (Some uid, Some cb) \<Rightarrow>
                          (let d1 = (if map_of (callback_tasks d) uid = None
                                     then d\<lparr>callback_queues := AList.update uid [] (callback_queues d),
                                            callback_tasks :=
                                              AList.update uid (cb, future) (callback_tasks d)\<rparr>
                                     else d)
                           in case map_of (callback_queues d1) uid of
                                None \<Rightarrow> (Some (KeyError (PInt uid)), d1, s)
                              | Some q \<Rightarrow>
                                  (None,
                                   d1\<lparr>callback_queues := AList.update uid (q @ [msg]) (callback_queues d1)\<rparr>,
                                   s))
                      | _ \<Rightarrow>
                          (case future of
                             None \<Rightarrow> (None, d, s)
                           | Some res \<Rightarrow>
                               if \<not> is_done (heap s res) then
                                 (case set_result (heap s res) msg of
                                    Inl e \<Rightarrow> (Some e, d, s)
                                  | Inr f \<Rightarrow> (None, d, s\<lparr>heap := (heap s)(res := f)\<rparr>))
                               else (None, d, s))))))"

text \<open>
  The tail of one round of \<open>callback_handler\<close>, after the callback has returned:
  \<open>if future is not None and not future.done(): future.set_result(msg)\<close>.
\<close>

definition worker_resolve :: "fid option \<Rightarrow> pyval \<Rightarrow> client \<Rightarrow> exn option \<times> client" where
  "worker_resolve future msg s =
     (case future of
        None \<Rightarrow> (None, s)
      | Some res \<Rightarrow>
          if \<not> is_done (heap s res) then
            (case set_result (heap s res) msg of
               Inl e \<Rightarrow> (Some e, s)
             | Inr f \<Rightarrow> (None, s\<lparr>heap := (heap s)(res := f)\<rparr>))
          else (None, s))"

text \<open>
  One round of the worker of identifier \<open>uid\<close>: take the oldest frame of the queue, call the
  callback on its payload, then resolve the future. \<open>invoke\<close> is what the callable does to
  the client; an exception of it ends the worker. \<open>None\<close>: the queue is empty (or there is no
  such worker), the worker waits.
\<close>

definition callback_handler_step ::
  "(callback \<Rightarrow> pyval \<Rightarrow> client \<Rightarrow> exn option \<times> client) \<Rightarrow> int \<Rightarrow> dispatcher \<times> client
     \<Rightarrow> (exn option \<times> dispatcher \<times> client) option" where
  "callback_handler_step invoke uid ds =
     (let (d, s) = ds in
      case (map_of (callback_tasks d) uid, map_of (callback_queues d) uid) of
        (Some (cb, future), Some (msg # q)) \<Rightarrow>
          (let d1 = d\<lparr>callback_queues := AList.update uid q (callback_queues d)\<rparr> in
           case py_get msg ''payload'' of
             Inl e \<Rightarrow> Some (Some e, d1, s)
           | Inr payload \<Rightarrow>
               (case invoke cb payload s of
                  (Some e, s1) \<Rightarrow> Some (Some e, d1, s1)
                | (None, s1) \<Rightarrow>
                    (case worker_resolve future msg s1 of (r, s2) \<Rightarrow> Some (r, d1, s2))))
      | _ \<Rightarrow> None)"

section \<open>Subscriptions\<close>

text \<open>\<open>del self.callbacks[uid]\<close>.\<close>

definition del_callback :: "int \<Rightarrow> client \<Rightarrow> unit result \<times> client" where
  "del_callback uid s =
     (if map_of (callbacks s) uid = None then (Inl (KeyError (PInt uid)), s)
      else (Inr (), s\<lparr>callbacks := AList.delete uid (callbacks s)\<rparr>))"

text \<open>
  \<open>subscribe\<close>: register the callback under a new identifier, then \<open>request\<close> with it;
  \<open>except Exception\<close> takes the registration back and raises again.
\<close>

definition subscribe :: "req_env \<Rightarrow> callback \<Rightarrow> string \<Rightarrow> pyval \<Rightarrow> client \<Rightarrow> pyval outcome" where
  "subscribe env callback uri payload s =
     (let uid = command_count s;
          s1 = s\<lparr>command_count := command_count s + 1\<rparr>;
          s2 = s1\<lparr>callbacks := AList.update uid callback (callbacks s1)\<rparr>
      in case request env uri payload ''subscribe'' (Some uid) s2 of
           Waiting s3 \<Rightarrow> Waiting s3
         | Returned (Inr r) s3 \<Rightarrow> Returned (Inr r) s3
         | Returned (Inl e) s3 \<Rightarrow>
             if is_Exception e then
               (case del_callback uid s3 of
                  (Inl k, s4) \<Rightarrow> Returned (Inl k) s4
                | (Inr u, s4) \<Rightarrow> Returned (Inl e) s4)
             else Returned (Inl e) s3)"

section \<open>The state mirror\<close>

text \<open>
  \<open>do_state_update_callbacks\<close> calls every registered callback and awaits them together;
  \<open>io\<close> is how that await ends.
\<close>

definition do_state_update_callbacks :: "exn option \<Rightarrow> client \<Rightarrow> exn option \<times> client" where
  "do_state_update_callbacks io s =
     (let cbs = state_update_callbacks s;
          s1 = s\<lparr>notified := notified s @ cbs\<rparr>
      in if cbs \<noteq> [] then (io, s1) else (None, s1))"

text \<open>The end of every consumer: notify when there are callbacks and the flag is set.\<close>

definition notify_state_update :: "exn option \<Rightarrow> client \<Rightarrow> exn option \<times> client" where
  "notify_state_update io s =
     (if state_update_callbacks s \<noteq> [] \<and> doStateUpdate s then do_state_update_callbacks io s
      else (None, s))"

text \<open>
  The loop \<open>for app in apps: self._apps[app["id"]] = app\<close>. The dict is filled as the loop
  goes, so an exception leaves the entries stored before it.
\<close>

fun store_apps :: "pyval list \<Rightarrow> pydict \<Rightarrow> exn option \<times> pydict" where
  "store_apps [] d = (None, d)"
| "store_apps (app # rest) d =
     (case py_getitem app ''id'' of
        Inl e \<Rightarrow> (Some e, d)
      | Inr k \<Rightarrow>
          (case dict_setitem d k app of
             Inl e \<Rightarrow> (Some e, d)
           | Inr d' \<Rightarrow> store_apps rest d'))"

text \<open>\<open>app["id"] == k\<close> as a key, for an app that has an \<open>id\<close>.\<close>

definition app_has_id :: "pyval \<Rightarrow> pyval \<Rightarrow> bool" where
  "app_has_id k app = (case py_getitem app ''id'' of Inl e \<Rightarrow> False | Inr i \<Rightarrow> key_eq i k)"

definition set_apps_state :: "exn option \<Rightarrow> pyval \<Rightarrow> client \<Rightarrow> exn option \<times> client" where
  "set_apps_state io payload s =
     (case py_get payload ''launchPoints'' of
        Inl e \<Rightarrow> (Some e, s)
      | Inr launchPoints \<Rightarrow>
          if launchPoints \<noteq> PNone then
            (case py_iter launchPoints of
               Inl e \<Rightarrow> (Some e, s\<lparr>apps := []\<rparr>)
             | Inr xs \<Rightarrow>
                 (case store_apps xs [] of
                    (Some e, d) \<Rightarrow> (Some e, s\<lparr>apps := d\<rparr>)
                  | (None, d) \<Rightarrow> notify_state_update io (s\<lparr>apps := d\<rparr>)))
          else
            (case py_getitem payload ''change'' of
               Inl e \<Rightarrow> (Some e, s)
             | Inr change \<Rightarrow>
                 (case py_getitem payload ''id'' of
                    Inl e \<Rightarrow> (Some e, s)
                  | Inr app_id \<Rightarrow>
                      if change = PStr ''removed'' then
                        (case dict_delitem (apps s) app_id of
                           Inl e \<Rightarrow> (Some e, s)
                         | Inr d \<Rightarrow> notify_state_update io (s\<lparr>apps := d\<rparr>))
                      else
                        (case dict_setitem (apps s) app_id payload of
                           Inl e \<Rightarrow> (Some e, s)
                         | Inr d \<Rightarrow> notify_state_update io (s\<lparr>apps := d\<rparr>)))))"

section \<open>The input connection\<close>

text \<open>
  What the world does at the awaits of \<open>input_command\<close>: the request for the socket path,
  the opening of the second connection, the write to it.
\<close>

record input_env =
  sock_env :: req_env
  connect_io :: "websocket result"
  input_send_io :: "exn option"

text \<open>
  The handler \<open>except Exception as ex\<close> of \<open>input_command\<close>:
  \<open>if not self.connect_result.done(): self.connect_result.set_exception(ex)\<close>, and nothing else.
  \<open>connect_result\<close> is \<open>None\<close> until \<open>connect\<close> is called.
\<close>

definition input_command_except :: "exn \<Rightarrow> client \<Rightarrow> unit outcome" where
  "input_command_except ex s =
     (if \<not> is_Exception ex then Returned (Inl ex) s
      else
        (case connect_result s of
           None \<Rightarrow> Returned (Inl AttributeError) s
         | Some r \<Rightarrow>
             if \<not> is_done (heap s r) then
               (case set_exception (heap s r) ex of
                  Inl e \<Rightarrow> Returned (Inl e) s
                | Inr f \<Rightarrow> Returned (Inr ()) (s\<lparr>heap := (heap s)(r := f)\<rparr>))
             else Returned (Inr ()) s))"

text \<open>The first half of the \<open>try\<close>: open the input connection when there is none.\<close>

definition input_open :: "string \<Rightarrow> input_env \<Rightarrow> client \<Rightarrow> unit outcome" where
  "input_open INPUT_SOCKET env s =
     (if input_connection s = None then
        (case request (sock_env env) INPUT_SOCKET PNone ''request'' None s of
           Waiting s1 \<Rightarrow> Waiting s1
         | Returned (Inl e) s1 \<Rightarrow> Returned (Inl e) s1
         | Returned (Inr sockres) s1 \<Rightarrow>
             (case py_get sockres ''socketPath'' of
                Inl e \<Rightarrow> Returned (Inl e) s1
              | Inr inputsockpath \<Rightarrow>
                  (case connect_io env of
                     Inl e \<Rightarrow> Returned (Inl e) s1
                   | Inr inputws \<Rightarrow> Returned (Inr ()) (s1\<lparr>input_connection := Some inputws\<rparr>))))
      else Returned (Inr ()) s)"

definition input_command :: "string \<Rightarrow> input_env \<Rightarrow> string \<Rightarrow> client \<Rightarrow> unit outcome" where
  "input_command INPUT_SOCKET env message s =
     (case input_open INPUT_SOCKET env s of
        Waiting s1 \<Rightarrow> Waiting s1
      | Returned (Inl e) s1 \<Rightarrow> input_command_except e s1
      | Returned (Inr u) s1 \<Rightarrow>
          (case input_connection s1 of
             None \<Rightarrow> input_command_except (PyLGTVCmdException NoInputCommand) s1
           | Some w \<Rightarrow>
               (case input_send_io env of
                  Some e \<Rightarrow> input_command_except e s1
                | None \<Rightarrow> Returned (Inr ()) (s1\<lparr>input_sent := input_sent s1 @ [message]\<rparr>))))"

text \<open>\<open>button\<close>: the message is \<open>type:button\<close>, the name, and an empty line.\<close>

definition button :: "string \<Rightarrow> input_env \<Rightarrow> string \<Rightarrow> client \<Rightarrow> unit outcome" where
  "button INPUT_SOCKET env name s =
     input_command INPUT_SOCKET env
       (''type:button'' @ [CHR 0x0A] @ ''name:'' @ name @ [CHR 0x0A, CHR 0x0A]) s"

section \<open>The connection handler\<close>

text \<open>
  What the world does at the awaits of \<open>connect_handler\<close>: the opening of the connection,
  the write of the registration, the replies of the pairing, the save of the key, the awaits of
  the subscriptions, the callbacks at ready, and the wait on the handler tasks. That wait
  goes on (\<open>None\<close>), ends because a handler task ended (\<open>Some None\<close>) or raises (a
  cancellation on \<open>disconnect\<close>); \<open>running\<close> is what the other tasks did to the client until
  then. \<open>closing\<close> is what the other tasks do to the client while the handler waits for
  the closeout (a call that a reply resumed just before, a delivery worker with a frame still
  queued), and \<open>closeout_io\<close> is how that wait ends: it goes on (\<open>None\<close>), ends
  (\<open>Some None\<close>) or raises (from Python 3.11 on \<open>asyncio.wait\<close> raises \<open>TypeError\<close> on the bare
  coroutines that the closeout holds when a state-update callback is registered).
\<close>

record connect_env =
  open_io :: "websocket result"
  register_io :: "exn option"
  recv1 :: "pyval result"
  recv2 :: "pyval result"
  write_key_io :: "exn option"
  sub_env :: req_env
  observers_io :: "exn option"
  run_io :: "exn option option"
  running :: "client \<Rightarrow> client"
  closing :: "client \<Rightarrow> client"
  closeout_io :: "exn option option"

datatype task = ConsumerHandler websocket | PingHandler websocket

text \<open>\<open>d[k] = v\<close> on a JSON object.\<close>

definition py_setitem :: "pyval \<Rightarrow> string \<Rightarrow> pyval \<Rightarrow> pyval result" where
  "py_setitem d k v = (case d of PDict kv \<Rightarrow> Inr (PDict (AList.update k v kv)) | _ \<Rightarrow> Inl TypeError)"

text \<open>
  \<open>registration_msg\<close>: a copy of the registration message with the client key in its payload.
  The message itself is a constant of the handshake module, an argument here.
\<close>

definition registration_msg :: "pyval \<Rightarrow> client \<Rightarrow> pyval result" where
  "registration_msg REGISTRATION_MESSAGE s =
     rbind (py_getitem REGISTRATION_MESSAGE ''payload'') (\<lambda>p.
     rbind (py_setitem p ''client-key'' (client_key s)) (\<lambda>p'.
       py_setitem REGISTRATION_MESSAGE ''payload'' p'))"

text \<open>The second frame of a pairing that prompts.\<close>

definition prompt_reply :: "connect_env \<Rightarrow> client \<Rightarrow> exn option \<times> client" where
  "prompt_reply env s =
     (case recv2 env of
        Inl e \<Rightarrow> (Some e, s)
      | Inr response \<Rightarrow>
          (case py_getitem response ''type'' of
             Inl e \<Rightarrow> (Some e, s)
           | Inr ty \<Rightarrow>
               if ty = PStr ''registered'' then
                 (case rbind (py_getitem response ''payload'') (\<lambda>p. py_getitem p ''client-key'') of
                    Inl e \<Rightarrow> (Some e, s)
                  | Inr k \<Rightarrow> (write_key_io env, s\<lparr>client_key := k\<rparr>))
               else (None, s)))"

text \<open>The pairing: the reply to the registration, up to \<open>raise PyLGTVPairException\<close>.\<close>

definition pairing :: "connect_env \<Rightarrow> client \<Rightarrow> exn option \<times> client" where
  "pairing env s =
     (case recv1 env of
        Inl e \<Rightarrow> (Some e, s)
      | Inr response \<Rightarrow>
          (case py_getitem response ''type'' of
             Inl e \<Rightarrow> (Some e, s)
           | Inr ty \<Rightarrow>
               (case (if ty = PStr ''response''
                      then rbind (py_getitem response ''payload'') (\<lambda>p.
                           rbind (py_getitem p ''pairingType'') (\<lambda>pt. Inr (pt = PStr ''PROMPT'')))
                      else Inr False) of
                  Inl e \<Rightarrow> (Some e, s)
                | Inr prompt \<Rightarrow>
                    (case (if prompt then prompt_reply env s else (None, s)) of
                       (Some e, s1) \<Rightarrow> (Some e, s1)
                     | (None, s1) \<Rightarrow>
                         if \<not> truthy (client_key s1) then (Some PyLGTVPairException, s1)
                         else (None, s1)))))"

text \<open>
  The collection \<open>subscribe_coros\<close> of \<open>connect_handler\<close>. In the source each of its eight
  entries (power state, current app, mute, volume, apps, inputs, sound output, picture
  settings) is commented out, so the collection is empty. An entry would be a callback and
  the endpoint it subscribes to.
\<close>

definition subscribe_coros :: "(callback \<times> string) list" where
  "subscribe_coros = []"

text \<open>
  The tasks of the subscriptions, awaited together; then the results are read, a
  \<open>PyLGTVServiceNotFoundError\<close> is passed over and any other exception is raised.
\<close>

fun subscribe_tasks :: "req_env \<Rightarrow> (callback \<times> string) list \<Rightarrow> client \<Rightarrow> unit outcome" where
  "subscribe_tasks env [] s = Returned (Inr ()) s"
| "subscribe_tasks env ((cb, uri) # coros) s =
     (case subscribe env cb uri PNone s of
        Waiting s1 \<Rightarrow> Waiting s1
      | Returned (Inr r) s1 \<Rightarrow> subscribe_tasks env coros s1
      | Returned (Inl e) s1 \<Rightarrow>
          if is_PyLGTVServiceNotFoundError e then subscribe_tasks env coros s1
          else
            (case subscribe_tasks env coros s1 of
               Waiting s2 \<Rightarrow> Waiting s2
             | Returned r s2 \<Rightarrow> Returned (Inl e) s2))"

text \<open>
  From the reset of the tables to \<open>res.set_result(True)\<close>. The first component of the result
  is \<open>None\<close> while the handler waits for the subscriptions, \<open>Some None\<close> when the ready flag is
  set and the caller of \<open>connect\<close> has its result, \<open>Some (Some e)\<close> when \<open>e\<close> was raised.
\<close>

definition connect_subscribing ::
  "connect_env \<Rightarrow> websocket \<Rightarrow> fid \<Rightarrow> client \<Rightarrow> exn option option \<times> task list \<times> client" where
  "connect_subscribing env ws res s =
     (let s1 = s\<lparr>callbacks := [], futures := []\<rparr>;
          handler_tasks =
            [ConsumerHandler ws] @ (if ping_interval s1 \<noteq> None then [PingHandler ws] else []);
          s2 = s1\<lparr>connection := Some ws, doStateUpdate := False\<rparr>
      in case (if subscribe_coros \<noteq> [] then subscribe_tasks (sub_env env) subscribe_coros s2
               else Returned (Inr ()) s2) of
           Waiting s3 \<Rightarrow> (None, handler_tasks, s3)
         | Returned (Inl e) s3 \<Rightarrow> (Some (Some e), handler_tasks, s3)
         | Returned (Inr u) s3 \<Rightarrow>
             (let s4 = (if \<not> truthy (power_state s3)
                        then s3\<lparr>power_state := PDict [(''state'', PStr ''Unknown'')]\<rparr> else s3);
                  s5 = s4\<lparr>doStateUpdate := True\<rparr>
              in case (if state_update_callbacks s5 \<noteq> []
                       then do_state_update_callbacks (observers_io env) s5 else (None, s5)) of
                   (Some e, s6) \<Rightarrow> (Some (Some e), handler_tasks, s6)
                 | (None, s6) \<Rightarrow>
                     (case set_result (heap s6 res) (PBool True) of
                        Inl e \<Rightarrow> (Some (Some e), handler_tasks, s6)
                      | Inr f \<Rightarrow> (Some None, handler_tasks, s6\<lparr>heap := (heap s6)(res := f)\<rparr>))))"

text \<open>
  The \<open>try\<close> block. The result says how it was left (\<open>None\<close>: the handler still waits), with
  the locals \<open>ws\<close> and \<open>handler_tasks\<close>.
\<close>

definition connect_try ::
  "pyval \<Rightarrow> connect_env \<Rightarrow> fid \<Rightarrow> client
     \<Rightarrow> exn option option \<times> websocket option \<times> task list \<times> client" where
  "connect_try REGISTRATION_MESSAGE env res s =
     (case open_io env of
        Inl e \<Rightarrow> (Some (Some e), None, [], s)
      | Inr ws \<Rightarrow>
          (case registration_msg REGISTRATION_MESSAGE s of
             Inl e \<Rightarrow> (Some (Some e), Some ws, [], s)
           | Inr msg \<Rightarrow>
               (case register_io env of
                  Some e \<Rightarrow> (Some (Some e), Some ws, [], s)
                | None \<Rightarrow>
                    (case pairing env (s\<lparr>sent := sent s @ [msg]\<rparr>) of
                       (Some e, s1) \<Rightarrow> (Some (Some e), Some ws, [], s1)
                     | (None, s1) \<Rightarrow>
                         (case connect_subscribing env ws res s1 of
                            (None, tasks, s2) \<Rightarrow> (None, Some ws, tasks, s2)
                          | (Some (Some e), tasks, s2) \<Rightarrow> (Some (Some e), Some ws, tasks, s2)
                          | (Some None, tasks, s2) \<Rightarrow>
                              (case run_io env of
                                 None \<Rightarrow> (None, Some ws, tasks, running env s2)
                               | Some r \<Rightarrow> (Some r, Some ws, tasks, running env s2)))))))"

text \<open>\<open>for future in self.futures.values(): future.cancel()\<close>.\<close>

definition cancel_futures :: "client \<Rightarrow> client" where
  "cancel_futures s =
     s\<lparr>heap := fold (\<lambda>res h. h(res := cancel (h res))) (map snd (futures s)) (heap s)\<rparr>"

text \<open>
  The \<open>finally\<close> block up to the wait for the closeout: cancel what is pending, close both
  connections, forget them, clear the flag, reset the mirror, call the callbacks.
\<close>

definition teardown :: "websocket option \<Rightarrow> client \<Rightarrow> client" where
  "teardown ws s =
     (let s1 = cancel_futures s;
          s2 = s1\<lparr>closed := closed s1 @ (case ws of None \<Rightarrow> [] | Some w \<Rightarrow> [w])
                              @ (case input_connection s1 of None \<Rightarrow> [] | Some w \<Rightarrow> [w])\<rparr>;
          s3 = s2\<lparr>connection := None, input_connection := None, doStateUpdate := False\<rparr>;
          s4 = s3\<lparr>power_state := PDict [], current_appId := PNone, muted := PNone,
                  volume := PNone, current_channel := PNone, channel_info := PNone,
                  channels := PNone, apps := [], extinputs := [], system_info := PNone,
                  software_info := PNone, sound_output := PNone, picture_settings := PNone\<rparr>
      in s4\<lparr>notified := notified s4 @ state_update_callbacks s4\<rparr>)"

text \<open>
  \<open>connect_handler\<close>: the \<open>try\<close>, the handler \<open>except Exception\<close> that gives the exception to
  the caller of \<open>connect\<close> when it has no result yet, and the \<open>finally\<close>. A cancellation is
  not caught and is raised again after the \<open>finally\<close>. When there is something in the
  closeout the handler waits for it, shielded: a cancellation of the wait is passed over, any
  other exception of the closeout leaves the \<open>finally\<close>.
\<close>

definition connect_handler :: "pyval \<Rightarrow> connect_env \<Rightarrow> fid \<Rightarrow> client \<Rightarrow> unit outcome" where
  "connect_handler REGISTRATION_MESSAGE env res s =
     (case connect_try REGISTRATION_MESSAGE env res s of
        (None, ws, handler_tasks, s1) \<Rightarrow> Waiting s1
      | (Some r, ws, handler_tasks, s1) \<Rightarrow>
          (let (r', s2) =
                 (case r of
                    None \<Rightarrow> (Inr (), s1)
                  | Some ex \<Rightarrow>
                      if is_Exception ex then
                        (if \<not> is_done (heap s1 res)
                         then (case set_exception (heap s1 res) ex of
                                 Inl e \<Rightarrow> (Inl e, s1)
                               | Inr f \<Rightarrow> (Inr (), s1\<lparr>heap := (heap s1)(res := f)\<rparr>))
                         else (Inr (), s1))
                      else (Inl ex, s1));
               closeout_empty = (handler_tasks = [] \<and> ws = None \<and> input_connection s2 = None
                                  \<and> state_update_callbacks s2 = []);
               s3 = teardown ws s2
           in if closeout_empty then Returned r' s3
              else
                (let s4 = closing env s3 in
                 case closeout_io env of
                   None \<Rightarrow> Waiting s4
                 | Some None \<Rightarrow> Returned r' s4
                 | Some (Some e) \<Rightarrow>
                     if e = CancelledError then Returned r' s4 else Returned (Inl e) s4)))"

section \<open>Derived accessors\<close>

text \<open>
  \<open>is_on\<close>: the \<open>Unknown\<close> state falls back on the current app id; \<open>None\<close> (no state) and
  the three off-like states are off; everything else is on.
\<close>

definition is_on :: "client \<Rightarrow> bool result" where
  "is_on s =
     (case py_get (power_state s) ''state'' of
        Inl e \<Rightarrow> Inl e
      | Inr state \<Rightarrow>
          if state = PStr ''Unknown'' then
            (if current_appId s \<in> set [PNone, PStr ''''] then Inr False else Inr True)
          else if state \<in> set [PNone, PStr ''Power Off'', PStr ''Suspend'', PStr ''Active Standby'']
            then Inr False
          else Inr True)"

section \<open>Power and volume steps\<close>

text \<open>
  \<open>power_off\<close> once \<open>get_power_state\<close> has returned: the reply becomes the mirrored power
  state, and unless the tv is off the power-off request is written, without waiting for a
  reply. The endpoint paths are arguments.
\<close>

definition power_off_tail :: "string \<Rightarrow> exn option \<Rightarrow> pyval \<Rightarrow> client \<Rightarrow> unit result \<times> client" where
  "power_off_tail POWER_OFF io reply s =
     (let s1 = s\<lparr>power_state := reply\<rparr> in
      case is_on s1 of
        Inl e \<Rightarrow> (Inl e, s1)
      | Inr on \<Rightarrow>
          if \<not> on then (Inr (), s1) else command io ''request'' POWER_OFF PNone None s1)"

definition power_off :: "string \<Rightarrow> string \<Rightarrow> req_env \<Rightarrow> exn option \<Rightarrow> client \<Rightarrow> unit outcome" where
  "power_off GET_POWER_STATE POWER_OFF env io s =
     (case request env GET_POWER_STATE PNone ''request'' None s of
        Waiting s1 \<Rightarrow> Waiting s1
      | Returned (Inl e) s1 \<Rightarrow> Returned (Inl e) s1
      | Returned (Inr reply) s1 \<Rightarrow>
          (case power_off_tail POWER_OFF io reply s1 of (r, s2) \<Rightarrow> Returned r s2))"

text \<open>\<open>power_off\<close> from the await of its request on, for a call that other tasks see suspended.\<close>

definition power_off_resume ::
  "string \<Rightarrow> exn option \<Rightarrow> bool \<Rightarrow> int \<Rightarrow> fid \<Rightarrow> client \<Rightarrow> unit outcome" where
  "power_off_resume POWER_OFF io cancel_task uid res s =
     (case request_resume cancel_task uid res s of
        Waiting s1 \<Rightarrow> Waiting s1
      | Returned (Inl e) s1 \<Rightarrow> Returned (Inl e) s1
      | Returned (Inr reply) s1 \<Rightarrow>
          (case power_off_tail POWER_OFF io reply s1 of (r, s2) \<Rightarrow> Returned r s2))"

text \<open>The sound outputs after which a volume step is followed by a pause.\<close>

definition SOUND_OUTPUTS_TO_DELAY_CONSECUTIVE_VOLUME_STEPS :: "pyval list" where
  "SOUND_OUTPUTS_TO_DELAY_CONSECUTIVE_VOLUME_STEPS = [PStr ''external_arc'']"

text \<open>
  What the world does at the awaits of \<open>_volume_step\<close>: the await of the request, and the
  sleep, during which the other tasks do \<open>pause\<close> to the client and which ends in \<open>sleep_io\<close>
  (\<open>None\<close>: the whole delay was slept).
\<close>

record step_env =
  reply_env :: req_env
  pause :: "client \<Rightarrow> client"
  sleep_io :: "exn option"

text \<open>
  \<open>_volume_step\<close>. Membership in the set of sound outputs hashes the mirrored value first.
  With a delaying output and a delay configured the call takes the lock (a call that finds it
  held waits, having done nothing), sends the request with the lock held, sleeps the delay
  after the reply and releases the lock; \<open>async with\<close> releases it also when the request or the
  sleep raises. Otherwise the call is the request alone.
\<close>

definition volume_step :: "string \<Rightarrow> step_env \<Rightarrow> client \<Rightarrow> pyval outcome" where
  "volume_step endpoint env s =
     (if \<not> hashable (sound_output s) then Returned (Inl TypeError) s
      else
        (case (sound_output s \<in> set SOUND_OUTPUTS_TO_DELAY_CONSECUTIVE_VOLUME_STEPS,
               volume_step_delay s) of
           (True, Some delay) \<Rightarrow>
             if volume_step_lock s then Waiting s
             else
               (case request (reply_env env) endpoint PNone ''request'' None
                       (s\<lparr>volume_step_lock := True\<rparr>) of
                  Waiting s1 \<Rightarrow> Waiting s1
                | Returned (Inl e) s1 \<Rightarrow> Returned (Inl e) (s1\<lparr>volume_step_lock := False\<rparr>)
                | Returned (Inr response) s1 \<Rightarrow>
                    (let s2 = pause env s1 in
                     case sleep_io env of
                       Some e \<Rightarrow> Returned (Inl e) (s2\<lparr>volume_step_lock := False\<rparr>)
                     | None \<Rightarrow>
                         Returned (Inr response)
                           (s2\<lparr>slept := slept s2 @ [delay], volume_step_lock := False\<rparr>)))
         | _ \<Rightarrow> request (reply_env env) endpoint PNone ''request'' None s))"

definition volume_up :: "string \<Rightarrow> step_env \<Rightarrow> client \<Rightarrow> pyval outcome" where
  "volume_up VOLUME_UP env s = volume_step VOLUME_UP env s"

definition volume_down :: "string \<Rightarrow> step_env \<Rightarrow> client \<Rightarrow> pyval outcome" where
  "volume_down VOLUME_DOWN env s = volume_step VOLUME_DOWN env s"

section \<open>Properties\<close>

text \<open>
  C4. With a mirrored power state that is a dict: \<open>is_on\<close> is \<open>False\<close> when its \<open>state\<close> entry
  is \<open>Power Off\<close>, \<open>Suspend\<close>, \<open>Active Standby\<close> or unset (\<open>get\<close> gives \<open>None\<close>); when it is
  exactly \<open>Unknown\<close>, \<open>is_on\<close> is \<open>True\<close> if and only if the current app id is neither \<open>None\<close> nor
  the empty string; for every other state value it is \<open>True\<close>.
\<close>

theorem is_on_cases:
  "power_state s = PDict d \<Longrightarrow>
   py_get (PDict d) ''state'' = Inr st \<Longrightarrow>
     (st \<in> {PStr ''Power Off'', PStr ''Suspend'', PStr ''Active Standby'', PNone}
        \<longrightarrow> is_on s = Inr False)
   \<and> (st = PStr ''Unknown''
        \<longrightarrow> is_on s = Inr (current_appId s \<noteq> PNone \<and> current_appId s \<noteq> PStr ''''))
   \<and> (st \<notin> {PStr ''Power Off'', PStr ''Suspend'', PStr ''Active Standby'', PNone, PStr ''Unknown''}
        \<longrightarrow> is_on s = Inr True)"
  by (auto simp: is_on_def)

theorem is_on_cases_witness:
  "is_on ((init_client PNone None None)\<lparr>power_state := PDict [(''state'', PStr ''Unknown'')],
       current_appId := PStr ''com.webos.app.livetv''\<rparr>) = Inr True
   \<and> is_on ((init_client PNone None None)\<lparr>power_state := PDict [(''state'', PStr ''Unknown'')]\<rparr>)
       = Inr False
   \<and> is_on ((init_client PNone None None)\<lparr>power_state := PDict [(''state'', PStr ''Suspend'')]\<rparr>)
       = Inr False
   \<and> is_on (init_client PNone None None) = Inr False
   \<and> is_on ((init_client PNone None None)\<lparr>power_state := PDict [(''state'', PStr ''Active'')]\<rparr>)
       = Inr True"
  using
    is_on_cases [of "(init_client PNone None None)\<lparr>power_state := PDict [(''state'', PStr ''Unknown'')],
       current_appId := PStr ''com.webos.app.livetv''\<rparr>" "[(''state'', PStr ''Unknown'')]" "PStr ''Unknown''"]
    is_on_cases [of "(init_client PNone None None)\<lparr>power_state := PDict [(''state'', PStr ''Unknown'')]\<rparr>"
       "[(''state'', PStr ''Unknown'')]" "PStr ''Unknown''"]
    is_on_cases [of "(init_client PNone None None)\<lparr>power_state := PDict [(''state'', PStr ''Suspend'')]\<rparr>"
       "[(''state'', PStr ''Suspend'')]" "PStr ''Suspend''"]
    is_on_cases [of "init_client PNone None None" "[]" PNone]
    is_on_cases [of "(init_client PNone None None)\<lparr>power_state := PDict [(''state'', PStr ''Active'')]\<rparr>"
       "[(''state'', PStr ''Active'')]" "PStr ''Active''"]
  by (simp add: init_client_def)

subsection \<open>Facts about the request facade\<close>

lemma py_get_error: "py_get v k = Inl e \<Longrightarrow> e = AttributeError"
  by (cases v) (auto split: option.splits)

lemma table_key_error: "table_key v = Inl e \<Longrightarrow> e = TypeError"
  by (cases v) auto

lemma set_result_pending: "\<not> is_done f \<Longrightarrow> set_result f v = Inr (Resolved v)"
  by (cases f) auto

lemma update_not_Nil: "AList.update k v al \<noteq> []"
  by (cases al) auto

lemma sent_discard_future: "sent (discard_future uid s) = sent s"
  by (simp add: discard_future_def)

lemma sent_request_await: "sent (state_of (request_await c uid res s)) = sent s"
  by (auto simp: request_await_def sent_discard_future del_future_def split: fstate.splits)

lemma request_begin_fresh:
  "request_begin None s = (command_count s, next_fid s,
     s\<lparr>command_count := command_count s + 1, heap := (heap s)(next_fid s := Pending),
        next_fid := Suc (next_fid s),
        futures := AList.update (command_count s) (next_fid s) (futures s)\<rparr>)"
  by (simp add: request_begin_def next_uid_def Let_def)

lemma map_of_discard_future: "map_of (futures (discard_future uid s)) uid = None"
  by (simp add: discard_future_def delete_conv')

lemma request_await_cancelled:
  "request_await c uid res s = Returned (Inl CancelledError) s' \<Longrightarrow> map_of (futures s') uid = None"
  by (auto simp: request_await_def map_of_discard_future del_future_def split: if_splits fstate.splits)

lemma request_send_cancelled:
  "request_send io ty uri payload uid s = (Inl CancelledError, s') \<Longrightarrow> map_of (futures s') uid = None"
  by (auto simp: request_send_def del_future_def delete_conv' split: prod.splits sum.splits if_splits)

lemma request_reply_not_cancelled: "request_reply r \<noteq> Inl CancelledError"
  by (auto simp: request_reply_def rbind_def split: sum.splits dest: py_get_error)

lemma request_cancel_removes:
  assumes "raised (request env uri payload ty uid s) = Some CancelledError"
  shows "map_of (futures (state_of (request env uri payload ty uid s))) (fst (next_uid uid s)) = None"
proof -
  obtain u res s1 where b: "request_begin uid s = (u, res, s1)"
    by (cases "request_begin uid s") auto
  have u: "u = fst (next_uid uid s)"
    using b by (auto simp: request_begin_def Let_def split: prod.splits)
  obtain r s2 where snd: "request_send (send_io env) ty uri payload u s1 = (r, s2)"
    by (cases "request_send (send_io env) ty uri payload u s1") auto
  show ?thesis
  proof (cases r)
    case (Inl e)
    with assms b snd have "e = CancelledError" by (simp add: request_def)
    with Inl snd have "map_of (futures s2) u = None" by (auto dest: request_send_cancelled)
    with Inl b snd u show ?thesis by (simp add: request_def)
  next
    case (Inr x)
    show ?thesis
    proof (cases "request_await (cancelled env) u res (meanwhile env s2)")
      case (Waiting s3)
      with assms b snd Inr show ?thesis by (simp add: request_def)
    next
      case (Returned q s3)
      show ?thesis
      proof (cases q)
        case (Inl e)
        with assms b snd Inr Returned have "e = CancelledError" by (simp add: request_def)
        with Inl Returned have "map_of (futures s3) u = None"
          by (auto dest: request_await_cancelled)
        with Inl Returned b snd Inr u show ?thesis by (simp add: request_def)
      next
        case (Inr resp)
        with assms b snd \<open>r = Inr x\<close> Returned show ?thesis
          by (cases "request_reply resp") (auto simp: request_def request_reply_not_cancelled)
      qed
    qed
  qed
qed

lemma request_cancelled_raises:
  assumes "connection s = Some ws" "send_io env = None" "cancelled env"
  shows "raised (request env uri payload ty uid s) = Some CancelledError"
  using assms
  by (auto simp: request_def request_begin_def request_send_def command_def next_uid_def Let_def
        request_await_def split: prod.splits option.splits)

lemma consumer_step_late:
  assumes "map_of (futures s) uid = None" "py_get msg ''id'' = Inr (PInt uid)"
  shows "snd (snd (consumer_step msg (d, s))) = s"
    and "map_of (callbacks s) uid = None \<Longrightarrow> consumer_step msg (d, s) = (None, d, s)"
  using assms
  by (auto simp: consumer_step_def table_get_def Let_def update_conv' split: option.splits)

lemma consumer_step_done:
  assumes "is_done (heap s f)"
  shows "heap (snd (snd (consumer_step msg (d, s)))) f = heap s f"
    and "fst (consumer_step msg (d, s)) \<noteq> Some InvalidStateError"
  using assms
  by (auto simp: consumer_step_def table_get_def Let_def update_conv' set_result_pending
      split: option.splits sum.splits dest: py_get_error table_key_error)

lemma worker_resolve_done:
  assumes "is_done (heap s f)"
  shows "heap (snd (worker_resolve fut msg s)) f = heap s f"
    and "fst (worker_resolve fut msg s) \<noteq> Some InvalidStateError"
  using assms
  by (auto simp: worker_resolve_def set_result_pending split: option.splits)

lemma request_reply_not_found:
  assumes "py_get response ''payload'' = Inr (PDict p)"
    and "py_get response ''type'' = Inr (PStr ''error'')"
    and "py_get response ''error'' = Inr (PStr ''404 no such service or method'')"
  shows "request_reply response =
           Inl (PyLGTVServiceNotFoundError (PStr ''404 no such service or method''))"
  using assms by (auto simp: request_reply_def rbind_def split: option.splits)

lemma request_reply_no_payload:
  assumes "py_get response ''payload'' = Inr PNone"
  shows "request_reply response = Inl (PyLGTVCmdException (InvalidResponse response))"
  using assms by (auto simp: request_reply_def rbind_def split: option.splits)

lemma request_resolved_by_frame:
  assumes "connection s = Some ws" and "send_io env = None" and "\<not> cancelled env"
    and "meanwhile env = (\<lambda>x. snd (snd (consumer_step response (d, x))))"
    and "py_get response ''id'' = Inr (PInt (command_count s))"
    and "map_of (callbacks s) (command_count s) = None"
  shows "\<exists>s'. request env uri payload ty None s = Returned (request_reply response) s'"
  using assms
  apply (simp add: request_def request_begin_fresh request_send_def command_def next_uid_def Let_def)
  apply (simp add: consumer_step_def table_get_def update_not_Nil update_conv' Let_def
      request_await_def del_future_def)
  done

lemma request_eq:
  "request env uri payload ty uid s =
     (let (uid', res, s1) = request_begin uid s in
      case request_send (send_io env) ty uri payload uid' s1 of
        (Inl e, s2) \<Rightarrow> Returned (Inl e) s2
      | (Inr u, s2) \<Rightarrow> request_resume (cancelled env) uid' res (meanwhile env s2))"
  by (simp add: request_def request_resume_def split: prod.splits sum.splits)

lemma request_connected_eq:
  assumes "connection s = Some ws" and "send_io env = None"
  shows "request env uri payload ty uid s
           = request_resume (cancelled env) (fst (next_uid uid s)) (next_fid s)
               (meanwhile env
                 ((snd (next_uid uid s))
                    \<lparr>heap := (heap s)(next_fid s := Pending), next_fid := Suc (next_fid s),
                     futures := AList.update (fst (next_uid uid s)) (next_fid s) (futures s),
                     sent := sent s @ [build_message (fst (next_uid uid s)) ty uri
                                        (if payload = PNone then PDict [] else payload)]\<rparr>))"
  using assms
  by (cases uid)
     (simp_all add: request_eq request_begin_def request_send_def command_def next_uid_def Let_def)

lemma request_connected:
  assumes "connection s = Some ws" and "send_io env = None"
  shows "\<exists>t. request env uri payload ty uid s
           = request_resume (cancelled env) (fst (next_uid uid s)) (next_fid s) (meanwhile env t)
         \<and> callbacks t = callbacks s
         \<and> map_of (futures t) (fst (next_uid uid s)) = Some (next_fid s)
         \<and> heap t (next_fid s) = Pending"
  by (rule exI, rule conjI, rule request_connected_eq [OF assms])
     (cases uid; simp add: next_uid_def update_conv')

lemma map_of_Some_not_Nil: "map_of al k = Some v \<Longrightarrow> al \<noteq> []"
  by auto

lemma consumer_step_direct:
  assumes "map_of (callbacks x) u = None" and "map_of (futures x) u = Some res"
    and "heap x res = Pending" and "py_get msg ''id'' = Inr (PInt u)"
  shows "consumer_step msg (d, x) = (None, d, x\<lparr>heap := (heap x)(res := Resolved msg)\<rparr>)"
proof -
  have "futures x \<noteq> []" using assms(2) by (rule map_of_Some_not_Nil)
  then show ?thesis
    by (simp add: consumer_step_def table_get_def Let_def assms)
qed

lemma consumer_step_queue:
  assumes "map_of (callbacks x) u = Some cb" and "map_of (callback_tasks d) u = None"
    and "py_get msg ''id'' = Inr (PInt u)"
  shows "consumer_step msg (d, x) =
     (None,
      d\<lparr>callback_queues := AList.update u [msg] (AList.update u [] (callback_queues d)),
        callback_tasks := AList.update u (cb, map_of (futures x) u) (callback_tasks d)\<rparr>,
      x)"
proof -
  have "callbacks x \<noteq> []" using assms(1) by (rule map_of_Some_not_Nil)
  then show ?thesis
    by (simp add: consumer_step_def table_get_def Let_def update_conv' assms)
qed

lemma callback_handler_step_first:
  assumes "map_of (callback_tasks d) u = Some (cb, fut)" and "map_of (callback_queues d) u = Some [msg]"
    and "py_get msg ''payload'' = Inr pl"
  shows "callback_handler_step invoke u (d, x) =
     (case invoke cb pl x of
        (Some e, x1) \<Rightarrow> Some (Some e, d\<lparr>callback_queues := AList.update u [] (callback_queues d)\<rparr>, x1)
      | (None, x1) \<Rightarrow>
          (case worker_resolve fut msg x1 of
             (r, x2) \<Rightarrow> Some (r, d\<lparr>callback_queues := AList.update u [] (callback_queues d)\<rparr>, x2)))"
  using assms
  by (simp add: callback_handler_step_def Let_def)

lemma request_resume_resolved:
  assumes "heap x res = Resolved response" and "map_of (futures x) u \<noteq> None"
  shows "request_resume False u res x
           = Returned (request_reply response) (x\<lparr>futures := AList.delete u (futures x)\<rparr>)"
  using assms by (auto simp: request_resume_def request_await_def del_future_def)

lemma request_resume_pending:
  assumes "heap x res = Pending"
  shows "request_resume False u res x = Waiting x"
  using assms by (simp add: request_resume_def request_await_def)

lemma request_direct:
  assumes "connection s = Some ws" and "send_io env = None" and "\<not> cancelled env"
    and "meanwhile env = (\<lambda>x. snd (snd (consumer_step response (d, x))))"
    and "py_get response ''id'' = Inr (PInt (fst (next_uid uid s)))"
    and "map_of (callbacks s) (fst (next_uid uid s)) = None"
  shows "\<exists>s'. request env uri payload ty uid s = Returned (request_reply response) s'"
proof -
  let ?u = "fst (next_uid uid s)" and ?res = "next_fid s"
  obtain t where t: "request env uri payload ty uid s
           = request_resume (cancelled env) ?u ?res (meanwhile env t)"
     "callbacks t = callbacks s" "map_of (futures t) ?u = Some ?res" "heap t ?res = Pending"
    using request_connected [OF assms(1,2)] by blast
  have "meanwhile env t = t\<lparr>heap := (heap t)(?res := Resolved response)\<rparr>"
    using consumer_step_direct [of t ?u ?res response d] t assms(4,5,6) by simp
  with t assms(3) show ?thesis
    by (simp add: request_resume_resolved)
qed

lemma request_via_worker:
  assumes "connection s = Some ws" and "send_io env = None" and "\<not> cancelled env"
    and "meanwhile env = (\<lambda>x. case consumer_step response (d, x) of
            (r, d1, x1) \<Rightarrow> (case callback_handler_step invoke (fst (next_uid uid s)) (d1, x1) of
                 None \<Rightarrow> x1 | Some (r', d2, x2) \<Rightarrow> x2))"
    and "py_get response ''id'' = Inr (PInt (fst (next_uid uid s)))"
    and "py_get response ''payload'' = Inr pl"
    and "map_of (callbacks s) (fst (next_uid uid s)) = Some cb"
    and "map_of (callback_tasks d) (fst (next_uid uid s)) = None"
    and "\<forall>x. heap (snd (invoke cb pl x)) (next_fid s) = heap x (next_fid s)
           \<and> map_of (futures (snd (invoke cb pl x))) (fst (next_uid uid s))
               = map_of (futures x) (fst (next_uid uid s))"
  shows "(\<forall>x. fst (invoke cb pl x) = None)
           \<longrightarrow> (\<exists>s'. request env uri payload ty uid s = Returned (request_reply response) s')"
    and "(\<forall>x. fst (invoke cb pl x) \<noteq> None) \<longrightarrow> \<not> returned (request env uri payload ty uid s)"
proof -
  let ?u = "fst (next_uid uid s)" and ?res = "next_fid s"
  obtain t where t: "request env uri payload ty uid s
           = request_resume (cancelled env) ?u ?res (meanwhile env t)"
     "callbacks t = callbacks s" "map_of (futures t) ?u = Some ?res" "heap t ?res = Pending"
    using request_connected [OF assms(1,2)] by blast
  let ?d1 = "d\<lparr>callback_queues := AList.update ?u [response] (AList.update ?u [] (callback_queues d)),
        callback_tasks := AList.update ?u (cb, Some ?res) (callback_tasks d)\<rparr>"
  have c: "consumer_step response (d, t) = (None, ?d1, t)"
    using consumer_step_queue [of t ?u cb d response] t assms(5,7,8) by simp
  have w: "callback_handler_step invoke ?u (?d1, t) =
     (case invoke cb pl t of
        (Some e, x1) \<Rightarrow> Some (Some e, ?d1\<lparr>callback_queues := AList.update ?u [] (callback_queues ?d1)\<rparr>, x1)
      | (None, x1) \<Rightarrow>
          (case worker_resolve (Some ?res) response x1 of
             (r, x2) \<Rightarrow> Some (r, ?d1\<lparr>callback_queues := AList.update ?u [] (callback_queues ?d1)\<rparr>, x2)))"
    by (rule callback_handler_step_first) (simp_all add: update_conv' assms(6))
  obtain q x1 where i: "invoke cb pl t = (q, x1)" by (cases "invoke cb pl t") auto
  have "heap (snd (invoke cb pl t)) ?res = heap t ?res"
    "map_of (futures (snd (invoke cb pl t))) ?u = map_of (futures t) ?u"
    using assms(9) by blast+
  with i t have x1: "heap x1 ?res = Pending" "map_of (futures x1) ?u = Some ?res"
    by simp_all
  show "(\<forall>x. fst (invoke cb pl x) = None)
           \<longrightarrow> (\<exists>s'. request env uri payload ty uid s = Returned (request_reply response) s')"
  proof
    assume "\<forall>x. fst (invoke cb pl x) = None"
    then have "fst (invoke cb pl t) = None" by blast
    with i have "q = None" by simp
    then have "meanwhile env t = x1\<lparr>heap := (heap x1)(?res := Resolved response)\<rparr>"
      using c w i x1 assms(4) by (simp add: worker_resolve_def)
    with t x1 assms(3) show "\<exists>s'. request env uri payload ty uid s = Returned (request_reply response) s'"
      by (simp add: request_resume_resolved)
  qed
  show "(\<forall>x. fst (invoke cb pl x) \<noteq> None) \<longrightarrow> \<not> returned (request env uri payload ty uid s)"
  proof
    assume "\<forall>x. fst (invoke cb pl x) \<noteq> None"
    then have "fst (invoke cb pl t) \<noteq> None" by blast
    with i obtain e where "q = Some e" by auto
    then have "meanwhile env t = x1"
      using c w i assms(4) by simp
    with t x1 assms(3) show "\<not> returned (request env uri payload ty uid s)"
      by (simp add: request_resume_pending)
  qed
qed


subsection \<open>Replies\<close>

text \<open>
  C2, as it holds. On an open connection, an error frame for the identifier of the call that
  carries the error \<open>404 no such service or method\<close> and a payload object (such as \<open>{}\<close>)
  makes \<open>request\<close> raise \<open>PyLGTVServiceNotFoundError\<close>. For a call whose identifier has no
  callback, the dispatcher gives the frame to the pending future and the caller, resumed,
  reads it. For the call \<open>subscribe\<close> makes, whose identifier has a callback, the dispatcher
  queues the frame, the delivery worker calls the consumer on the payload and then gives the
  frame to the future: the error is raised when the consumer returns, and when the consumer
  raises instead the worker ends and the request does not return.
\<close>

theorem request_not_found:
  assumes "connection s = Some ws" and "send_io env = None" and "\<not> cancelled env"
    and "py_get response ''id'' = Inr (PInt (fst (next_uid uid s)))"
    and "py_get response ''payload'' = Inr (PDict p)"
    and "py_get response ''type'' = Inr (PStr ''error'')"
    and "py_get response ''error'' = Inr (PStr ''404 no such service or method'')"
  shows "(map_of (callbacks s) (fst (next_uid uid s)) = None
          \<and> meanwhile env = (\<lambda>x. snd (snd (consumer_step response (d, x))))
         \<longrightarrow> raised (request env uri payload ty uid s) =
               Some (PyLGTVServiceNotFoundError (PStr ''404 no such service or method'')))
     \<and> (map_of (callbacks s) (fst (next_uid uid s)) = Some cb
          \<and> map_of (callback_tasks d) (fst (next_uid uid s)) = None
          \<and> meanwhile env = (\<lambda>x. case consumer_step response (d, x) of
                (r, d1, x1) \<Rightarrow>
                  (case callback_handler_step invoke (fst (next_uid uid s)) (d1, x1) of
                     None \<Rightarrow> x1 | Some (r', d2, x2) \<Rightarrow> x2))
          \<and> (\<forall>x. heap (snd (invoke cb (PDict p) x)) (next_fid s) = heap x (next_fid s)
                 \<and> map_of (futures (snd (invoke cb (PDict p) x))) (fst (next_uid uid s))
                     = map_of (futures x) (fst (next_uid uid s)))
         \<longrightarrow> ((\<forall>x. fst (invoke cb (PDict p) x) = None)
                \<longrightarrow> raised (request env uri payload ty uid s) =
                      Some (PyLGTVServiceNotFoundError (PStr ''404 no such service or method'')))
             \<and> ((\<forall>x. fst (invoke cb (PDict p) x) \<noteq> None)
                \<longrightarrow> \<not> returned (request env uri payload ty uid s)))"
proof -
  note nf = request_reply_not_found [OF assms(5-7)]
  have a: "raised (request env uri payload ty uid s) =
               Some (PyLGTVServiceNotFoundError (PStr ''404 no such service or method''))"
    if "map_of (callbacks s) (fst (next_uid uid s)) = None"
      and "meanwhile env = (\<lambda>x. snd (snd (consumer_step response (d, x))))"
    using request_direct [OF assms(1-3) that(2) assms(4) that(1), of uri payload ty] nf by auto
  have b: "((\<forall>x. fst (invoke cb (PDict p) x) = None)
                \<longrightarrow> raised (request env uri payload ty uid s) =
                      Some (PyLGTVServiceNotFoundError (PStr ''404 no such service or method'')))
             \<and> ((\<forall>x. fst (invoke cb (PDict p) x) \<noteq> None)
                \<longrightarrow> \<not> returned (request env uri payload ty uid s))"
    if "map_of (callbacks s) (fst (next_uid uid s)) = Some cb"
      and "map_of (callback_tasks d) (fst (next_uid uid s)) = None"
      and "meanwhile env = (\<lambda>x. case consumer_step response (d, x) of
                (r, d1, x1) \<Rightarrow>
                  (case callback_handler_step invoke (fst (next_uid uid s)) (d1, x1) of
                     None \<Rightarrow> x1 | Some (r', d2, x2) \<Rightarrow> x2))"
      and "\<forall>x. heap (snd (invoke cb (PDict p) x)) (next_fid s) = heap x (next_fid s)
                 \<and> map_of (futures (snd (invoke cb (PDict p) x))) (fst (next_uid uid s))
                     = map_of (futures x) (fst (next_uid uid s))"
    using request_via_worker [OF assms(1-3) that(3) assms(4,5) that(1,2,4), of uri payload ty] nf
    by auto
  from a b show ?thesis by blast
qed

theorem request_not_found_witness:
  "raised (request
     \<lparr>send_io = None,
      meanwhile = (\<lambda>x. snd (snd (consumer_step
         (PDict [(''id'', PInt 0), (''type'', PStr ''error''),
                 (''error'', PStr ''404 no such service or method''), (''payload'', PDict [])])
         (no_dispatch, x)))),
      cancelled = False\<rparr>
     ''some/uri'' (PDict []) ''request'' None
     ((init_client (PStr ''key'') None None)\<lparr>connection := Some 0\<rparr>))
   = Some (PyLGTVServiceNotFoundError (PStr ''404 no such service or method''))
   \<and> raised (request
     \<lparr>send_io = None,
      meanwhile = (\<lambda>x. case consumer_step
         (PDict [(''id'', PInt 0), (''type'', PStr ''error''),
                 (''error'', PStr ''404 no such service or method''), (''payload'', PDict [])])
         (no_dispatch, x) of
           (r, d1, x1) \<Rightarrow>
             (case callback_handler_step (\<lambda>cb pl y. (None, y)) 0 (d1, x1) of
                None \<Rightarrow> x1 | Some (r', d2, x2) \<Rightarrow> x2)),
      cancelled = False\<rparr>
     ''some/uri'' PNone ''subscribe'' (Some 0)
     ((init_client (PStr ''key'') None None)
        \<lparr>connection := Some 0, command_count := 1, callbacks := [(0, 7)]\<rparr>))
   = Some (PyLGTVServiceNotFoundError (PStr ''404 no such service or method''))
   \<and> \<not> returned (request
     \<lparr>send_io = None,
      meanwhile = (\<lambda>x. case consumer_step
         (PDict [(''id'', PInt 0), (''type'', PStr ''error''),
                 (''error'', PStr ''404 no such service or method''), (''payload'', PDict [])])
         (no_dispatch, x) of
           (r, d1, x1) \<Rightarrow>
             (case callback_handler_step (\<lambda>cb pl y. (Some (KeyError (PStr ''change'')), y)) 0 (d1, x1) of
                None \<Rightarrow> x1 | Some (r', d2, x2) \<Rightarrow> x2)),
      cancelled = False\<rparr>
     ''some/uri'' PNone ''subscribe'' (Some 0)
     ((init_client (PStr ''key'') None None)
        \<lparr>connection := Some 0, command_count := 1, callbacks := [(0, 7)]\<rparr>))"
proof -
  let ?f = "PDict [(''id'', PInt 0), (''type'', PStr ''error''),
                 (''error'', PStr ''404 no such service or method''), (''payload'', PDict [])]"
  let ?s0 = "(init_client (PStr ''key'') None None)\<lparr>connection := Some 0\<rparr>"
  let ?s1 = "(init_client (PStr ''key'') None None)
        \<lparr>connection := Some 0, command_count := 1, callbacks := [(0, 7)]\<rparr>"
  let ?e0 = "\<lparr>send_io = None,
      meanwhile = (\<lambda>x. snd (snd (consumer_step ?f (no_dispatch, x)))), cancelled = False\<rparr>"
  let ?ok = "\<lambda>(cb::callback) (pl::pyval) (y::client). (None::exn option, y)"
  let ?ko = "\<lambda>(cb::callback) (pl::pyval) (y::client). (Some (KeyError (PStr ''change'')), y)"
  let ?e1 = "\<lambda>inv. \<lparr>send_io = None,
      meanwhile = (\<lambda>x. case consumer_step ?f (no_dispatch, x) of
           (r, d1, x1) \<Rightarrow>
             (case callback_handler_step inv 0 (d1, x1) of
                None \<Rightarrow> x1 | Some (r', d2, x2) \<Rightarrow> x2)),
      cancelled = False\<rparr>"
  show ?thesis
    using
      request_not_found [where s = ?s0 and ws = 0 and env = ?e0 and response = ?f and uid = None
        and p = "[]" and d = no_dispatch and uri = "''some/uri''" and payload = "PDict []"
        and ty = "''request''"]
      request_not_found [where s = ?s1 and ws = 0 and env = "?e1 ?ok" and response = ?f
        and uid = "Some 0" and p = "[]" and d = no_dispatch and cb = 7 and invoke = ?ok
        and uri = "''some/uri''" and payload = PNone and ty = "''subscribe''"]
      request_not_found [where s = ?s1 and ws = 0 and env = "?e1 ?ko" and response = ?f
        and uid = "Some 0" and p = "[]" and d = no_dispatch and cb = 7 and invoke = ?ko
        and uri = "''some/uri''" and payload = PNone and ty = "''subscribe''"]
    by (simp add: init_client_def next_uid_def no_dispatch_def)
qed

text \<open>
  C2, as stated, fails: the frame of the claim has no payload, and \<open>request\<close> looks at the
  payload first, so it raises \<open>PyLGTVCmdException\<close> (invalid response).
\<close>

theorem request_not_found_without_payload:
  "raised (request
     \<lparr>send_io = None,
      meanwhile = (\<lambda>x. snd (snd (consumer_step
         (PDict [(''id'', PInt 0), (''type'', PStr ''error''),
                 (''error'', PStr ''404 no such service or method'')])
         (no_dispatch, x)))),
      cancelled = False\<rparr>
     ''some/uri'' (PDict []) ''request'' None
     ((init_client (PStr ''key'') None None)\<lparr>connection := Some 0\<rparr>))
   = Some (PyLGTVCmdException (InvalidResponse
       (PDict [(''id'', PInt 0), (''type'', PStr ''error''),
               (''error'', PStr ''404 no such service or method'')])))"
proof -
  have "\<exists>s'. request
     \<lparr>send_io = None,
      meanwhile = (\<lambda>x. snd (snd (consumer_step
         (PDict [(''id'', PInt 0), (''type'', PStr ''error''),
                 (''error'', PStr ''404 no such service or method'')])
         (no_dispatch, x)))),
      cancelled = False\<rparr>
     ''some/uri'' (PDict []) ''request'' None
     ((init_client (PStr ''key'') None None)\<lparr>connection := Some 0\<rparr>)
     = Returned (request_reply (PDict [(''id'', PInt 0), (''type'', PStr ''error''),
                 (''error'', PStr ''404 no such service or method'')])) s'"
    by (rule request_resolved_by_frame [where ws = 0 and d = no_dispatch])
       (simp_all add: init_client_def)
  then show ?thesis
    by (auto simp: request_reply_no_payload)
qed

subsection \<open>Cancellation and late replies\<close>

text \<open>
  C6. A caller cancelled while it awaits the reply gets \<open>CancelledError\<close>, and whenever
  \<open>request\<close> lets \<open>CancelledError\<close> through, the futures table has no entry for the request's
  identifier. In a client whose futures table has no entry for the identifier of a frame,
  the dispatcher leaves the client as it is, and with no callback for it either it drops the
  frame. A future that is done is never set again, by the dispatcher or by a delivery worker,
  and neither raises \<open>InvalidStateError\<close>.
\<close>

theorem request_cancellation:
  "(connection s = Some ws \<and> send_io env = None \<and> cancelled env
      \<longrightarrow> raised (request env uri payload ty uid s) = Some CancelledError)
   \<and> (raised (request env uri payload ty uid s) = Some CancelledError
      \<longrightarrow> map_of (futures (state_of (request env uri payload ty uid s))) (fst (next_uid uid s)) = None)
   \<and> (map_of (futures t) u = None \<and> py_get msg ''id'' = Inr (PInt u)
      \<longrightarrow> snd (snd (consumer_step msg (d, t))) = t)
   \<and> (map_of (futures t) u = None \<and> map_of (callbacks t) u = None \<and> py_get msg ''id'' = Inr (PInt u)
      \<longrightarrow> consumer_step msg (d, t) = (None, d, t))
   \<and> (is_done (heap t f)
      \<longrightarrow> heap (snd (snd (consumer_step msg (d, t)))) f = heap t f
        \<and> fst (consumer_step msg (d, t)) \<noteq> Some InvalidStateError
        \<and> heap (snd (worker_resolve fut msg t)) f = heap t f
        \<and> fst (worker_resolve fut msg t) \<noteq> Some InvalidStateError)"
  using request_cancelled_raises [of s ws env uri payload ty uid]
    request_cancel_removes [of env uri payload ty uid s]
    consumer_step_late [of t u msg d]
    consumer_step_done [of t f msg d]
    worker_resolve_done [of t f fut msg]
  by blast

theorem request_cancellation_witness:
  "raised (request \<lparr>send_io = None, meanwhile = (\<lambda>x. x), cancelled = True\<rparr>
              ''some/uri'' (PDict []) ''request'' None
              ((init_client (PStr ''key'') None None)\<lparr>connection := Some 0\<rparr>))
     = Some CancelledError
   \<and> futures (state_of (request \<lparr>send_io = None, meanwhile = (\<lambda>x. x), cancelled = True\<rparr>
              ''some/uri'' (PDict []) ''request'' None
              ((init_client (PStr ''key'') None None)\<lparr>connection := Some 0\<rparr>))) = []
   \<and> consumer_step (PDict [(''id'', PInt 0), (''type'', PStr ''response''),
                            (''payload'', PDict [(''returnValue'', PBool True)])])
        (no_dispatch,
         state_of (request \<lparr>send_io = None, meanwhile = (\<lambda>x. x), cancelled = True\<rparr>
              ''some/uri'' (PDict []) ''request'' None
              ((init_client (PStr ''key'') None None)\<lparr>connection := Some 0\<rparr>)))
     = (None, no_dispatch,
         state_of (request \<lparr>send_io = None, meanwhile = (\<lambda>x. x), cancelled = True\<rparr>
              ''some/uri'' (PDict []) ''request'' None
              ((init_client (PStr ''key'') None None)\<lparr>connection := Some 0\<rparr>)))
   \<and> heap (snd (worker_resolve (Some 0)
             (PDict [(''id'', PInt 0), (''type'', PStr ''response''),
                     (''payload'', PDict [(''returnValue'', PBool True)])])
             (state_of (request \<lparr>send_io = None, meanwhile = (\<lambda>x. x), cancelled = True\<rparr>
              ''some/uri'' (PDict []) ''request'' None
              ((init_client (PStr ''key'') None None)\<lparr>connection := Some 0\<rparr>))))) 0
     = Cancelled"
proof -
  let ?s = "(init_client (PStr ''key'') None None)\<lparr>connection := Some 0\<rparr>"
  let ?env = "\<lparr>send_io = None, meanwhile = (\<lambda>x. x), cancelled = True\<rparr>"
  let ?msg = "PDict [(''id'', PInt 0), (''type'', PStr ''response''),
                     (''payload'', PDict [(''returnValue'', PBool True)])]"
  let ?t = "state_of (request ?env ''some/uri'' (PDict []) ''request'' None ?s)"
  have t: "futures ?t = []" "callbacks ?t = []" "heap ?t 0 = Cancelled"
    by (simp_all add: request_def request_begin_def next_uid_def request_send_def command_def
        request_await_def discard_future_def init_client_def Let_def)
  have u: "fst (next_uid None ?s) = 0"
    by (simp add: next_uid_def init_client_def)
  show ?thesis
    using request_cancellation [where s = ?s and ws = 0 and env = ?env and uri = "''some/uri''"
        and payload = "PDict []" and ty = "''request''" and uid = None and t = ?t and u = 0
        and msg = ?msg and d = no_dispatch and f = 0 and fut = "Some 0"] t u
    by simp
qed

subsection \<open>Volume\<close>

text \<open>
  C10. On an open connection whose send succeeds, \<open>set_volume v\<close> writes exactly one frame:
  the next identifier, the type \<open>request\<close>, the uri of the set-volume endpoint, and the payload
  \<open>{"volume": 0}\<close> for a negative \<open>v\<close> and \<open>{"volume": v}\<close> otherwise (no other task writing to
  the connection meanwhile).
\<close>

theorem set_volume_clamps:
  assumes "connection s = Some ws" and "send_io env = None"
    and "\<forall>x. sent (meanwhile env x) = sent x"
  shows "sent (state_of (set_volume ep env v s)) =
     sent s @ [PDict [(''id'', PInt (command_count s)), (''type'', PStr ''request''),
                      (''uri'', PStr (''ssap://'' @ ep)),
                      (''payload'', PDict [(''volume'', PInt (if v < 0 then 0 else v))])]]"
  using assms
  apply (simp add: set_volume_def request_def request_begin_fresh request_send_def command_def
      build_message_def next_uid_def max_def split: prod.splits sum.splits outcome.splits)
  apply (auto simp: Let_def dest!: arg_cong [where f = state_of] simp: sent_request_await)
  done

theorem set_volume_clamps_witness:
  "sent (state_of (set_volume ''audio/setVolume''
       \<lparr>send_io = None, meanwhile = (\<lambda>x. x), cancelled = False\<rparr> (- 5)
       ((init_client (PStr ''key'') None None)\<lparr>connection := Some 0\<rparr>)))
   = [PDict [(''id'', PInt 0), (''type'', PStr ''request''),
             (''uri'', PStr ''ssap://audio/setVolume''),
             (''payload'', PDict [(''volume'', PInt 0)])]]
   \<and> sent (state_of (set_volume ''audio/setVolume''
       \<lparr>send_io = None, meanwhile = (\<lambda>x. x), cancelled = False\<rparr> 12
       ((init_client (PStr ''key'') None None)\<lparr>connection := Some 0\<rparr>)))
   = [PDict [(''id'', PInt 0), (''type'', PStr ''request''),
             (''uri'', PStr ''ssap://audio/setVolume''),
             (''payload'', PDict [(''volume'', PInt 12)])]]"
  using
    set_volume_clamps [of "(init_client (PStr ''key'') None None)\<lparr>connection := Some 0\<rparr>" 0
      "\<lparr>send_io = None, meanwhile = (\<lambda>x. x), cancelled = False\<rparr>" "''audio/setVolume''" "- 5"]
    set_volume_clamps [of "(init_client (PStr ''key'') None None)\<lparr>connection := Some 0\<rparr>" 0
      "\<lparr>send_io = None, meanwhile = (\<lambda>x. x), cancelled = False\<rparr>" "''audio/setVolume''" 12]
  by (simp add: init_client_def)

subsection \<open>The apps mirror\<close>

lemma dict_lookup_store:
  "dict_lookup (dict_store d k v) k' = (if key_eq k k' then Some v else dict_lookup d k')"
  by (induction d k v rule: dict_store.induct) (auto simp: key_eq_def)

lemma dict_lookup_None_iff: "dict_lookup d k = None \<longleftrightarrow> pykey k \<notin> set (dict_keys d)"
  by (induction d k rule: dict_lookup.induct) (auto simp: key_eq_def)

lemma dict_keys_store: "set (dict_keys (dict_store d k v)) = insert (pykey k) (set (dict_keys d))"
  by (induction d k v rule: dict_store.induct) (auto simp: key_eq_def)

lemma dict_keys_remove: "set (dict_keys (dict_remove d k)) \<subseteq> set (dict_keys d)"
  by (induction d k rule: dict_remove.induct) (auto simp: key_eq_def)

lemma dict_ok_store: "dict_ok d \<Longrightarrow> dict_ok (dict_store d k v)"
  by (induction d k v rule: dict_store.induct) (auto simp: dict_ok_def dict_keys_store key_eq_def)

lemma dict_ok_remove: "dict_ok d \<Longrightarrow> dict_ok (dict_remove d k)"
  using dict_keys_remove
  by (induction d k rule: dict_remove.induct) (auto simp: dict_ok_def key_eq_def)

lemma dict_lookup_remove:
  "dict_ok d \<Longrightarrow> dict_lookup (dict_remove d k) k' = (if key_eq k k' then None else dict_lookup d k')"
  by (induction d k rule: dict_remove.induct)
     (auto simp: dict_ok_def key_eq_def dict_lookup_None_iff)

lemma find_snoc:
  "find P (xs @ [x]) = (case find P xs of None \<Rightarrow> (if P x then Some x else None) | Some y \<Rightarrow> Some y)"
  by (induction xs) auto

lemma store_apps_lookup:
  assumes "\<forall>app \<in> set xs. \<exists>i. py_getitem app ''id'' = Inr i \<and> hashable i"
  shows "\<exists>d. store_apps xs d0 = (None, d) \<and> (dict_ok d0 \<longrightarrow> dict_ok d)
           \<and> (\<forall>k. dict_lookup d k =
                 (case find (app_has_id k) (rev xs) of Some a \<Rightarrow> Some a | None \<Rightarrow> dict_lookup d0 k))"
  using assms
proof (induction xs arbitrary: d0)
  case Nil
  then show ?case by simp
next
  case (Cons app xs)
  then obtain i where i: "py_getitem app ''id'' = Inr i" "hashable i" by auto
  then have h: "app_has_id k app = key_eq i k" for k by (simp add: app_has_id_def)
  from Cons obtain d where d: "store_apps xs (dict_store d0 i app) = (None, d)"
     "dict_ok (dict_store d0 i app) \<longrightarrow> dict_ok d"
     "\<forall>k. dict_lookup d k =
        (case find (app_has_id k) (rev xs) of Some a \<Rightarrow> Some a | None \<Rightarrow> dict_lookup (dict_store d0 i app) k)"
    by (metis list.set_intros(2))
  show ?case
    using i d
    by (auto simp: dict_setitem_def find_snoc dict_lookup_store h dict_ok_store
        split: option.splits)
qed


lemma dict_ok_store_apps: "dict_ok d0 \<Longrightarrow> dict_ok (snd (store_apps xs d0))"
  by (induction xs arbitrary: d0)
     (auto simp: dict_setitem_def dict_ok_store split: sum.splits)

lemma apps_notify_state_update: "apps (snd (notify_state_update io s)) = apps s"
  by (simp add: notify_state_update_def do_state_update_callbacks_def Let_def)

lemma set_apps_state_full:
  assumes "py_get payload ''launchPoints'' = Inr lp" "lp \<noteq> PNone" "py_iter lp = Inr xs"
    and "\<forall>app \<in> set xs. \<exists>i. py_getitem app ''id'' = Inr i \<and> hashable i"
  shows "dict_lookup (apps (snd (set_apps_state io payload s))) k = find (app_has_id k) (rev xs)"
proof -
  obtain d where d: "store_apps xs [] = (None, d)"
    "\<forall>k. dict_lookup d k = (case find (app_has_id k) (rev xs) of Some a \<Rightarrow> Some a | None \<Rightarrow> dict_lookup [] k)"
    using store_apps_lookup [OF assms(4), of "[]"] by blast
  have "apps (snd (set_apps_state io payload s)) = d"
    using assms(1-3) d(1) by (simp add: set_apps_state_def apps_notify_state_update)
  with d(2) show ?thesis by (simp split: option.splits)
qed

lemma set_apps_state_removed:
  assumes "py_get payload ''launchPoints'' = Inr PNone"
    and "py_getitem payload ''change'' = Inr (PStr ''removed'')"
    and "py_getitem payload ''id'' = Inr i" "hashable i" "dict_ok (apps s)"
  shows "dict_lookup (apps (snd (set_apps_state io payload s))) k =
           (if key_eq i k then None else dict_lookup (apps s) k)"
proof (cases "dict_lookup (apps s) i = None")
  case True
  then have "key_eq i k \<Longrightarrow> dict_lookup (apps s) k = None"
    by (simp add: dict_lookup_None_iff key_eq_def)
  with True assms show ?thesis
    by (auto simp: set_apps_state_def dict_delitem_def)
next
  case False
  with assms show ?thesis
    by (auto simp: set_apps_state_def dict_delitem_def apps_notify_state_update dict_lookup_remove)
qed

lemma set_apps_state_upsert:
  assumes "py_get payload ''launchPoints'' = Inr PNone"
    and "py_getitem payload ''change'' = Inr c" "c \<noteq> PStr ''removed''"
    and "py_getitem payload ''id'' = Inr i" "hashable i"
  shows "dict_lookup (apps (snd (set_apps_state io payload s))) k =
           (if key_eq i k then Some payload else dict_lookup (apps s) k)"
  using assms
  by (auto simp: set_apps_state_def dict_setitem_def apps_notify_state_update dict_lookup_store)

lemma set_apps_state_scenario:
  "apps (snd (set_apps_state io2
        (PDict [(''change'', PStr ''removed''), (''id'', PStr ''a'')])
        (snd (set_apps_state io1
           (PDict [(''launchPoints'', PList [PDict [(''id'', PStr ''a'')], PDict [(''id'', PStr ''b'')]])])
           s))))
   = [(PStr ''b'', PDict [(''id'', PStr ''b'')])]"
  by (simp add: set_apps_state_def dict_setitem_def dict_delitem_def apps_notify_state_update
      key_eq_def)

lemma dict_ok_store_apps_result: "store_apps xs d0 = (r, d) \<Longrightarrow> dict_ok d0 \<Longrightarrow> dict_ok d"
  using dict_ok_store_apps [of d0 xs] by simp

lemma dict_ok_set_apps_state:
  assumes "dict_ok (apps s)"
  shows "dict_ok (apps (snd (set_apps_state io payload s)))"
proof -
  have e: "dict_ok []" by (simp add: dict_ok_def)
  show ?thesis
    using assms e
    by (auto simp: set_apps_state_def apps_notify_state_update dict_setitem_def dict_delitem_def
          dict_ok_store dict_ok_remove
        split: sum.splits prod.splits option.splits dest: dict_ok_store_apps_result)
qed


text \<open>
  C9. A delivery with \<open>launchPoints\<close> (a list of apps, each with a hashable \<open>id\<close>) replaces the
  mapping: afterwards the entry of a key is the last listed app with that id, and there is no
  entry for any other key. A delivery without \<open>launchPoints\<close> whose \<open>change\<close> is \<open>removed\<close>
  leaves no entry for the payload's id and every other entry as it was; with any other
  \<open>change\<close> the entry of the id is the payload and every other entry is as it was. The
  catalogue of \<open>a\<close> and \<open>b\<close> followed by the removal of \<open>a\<close> leaves the mapping with \<open>b\<close>
  alone.
\<close>

theorem set_apps_state_cases:
  "(py_get payload ''launchPoints'' = Inr lp \<and> lp \<noteq> PNone \<and> py_iter lp = Inr xs
      \<and> (\<forall>app \<in> set xs. \<exists>i. py_getitem app ''id'' = Inr i \<and> hashable i)
     \<longrightarrow> (\<forall>k. dict_lookup (apps (snd (set_apps_state io payload s))) k
               = find (app_has_id k) (rev xs)))
   \<and> (py_get payload ''launchPoints'' = Inr PNone
      \<and> py_getitem payload ''change'' = Inr (PStr ''removed'')
      \<and> py_getitem payload ''id'' = Inr i \<and> hashable i \<and> dict_ok (apps s)
     \<longrightarrow> (\<forall>k. dict_lookup (apps (snd (set_apps_state io payload s))) k
               = (if key_eq i k then None else dict_lookup (apps s) k)))
   \<and> (py_get payload ''launchPoints'' = Inr PNone
      \<and> py_getitem payload ''change'' = Inr c \<and> c \<noteq> PStr ''removed''
      \<and> py_getitem payload ''id'' = Inr i \<and> hashable i
     \<longrightarrow> (\<forall>k. dict_lookup (apps (snd (set_apps_state io payload s))) k
               = (if key_eq i k then Some payload else dict_lookup (apps s) k)))
   \<and> apps (snd (set_apps_state io
        (PDict [(''change'', PStr ''removed''), (''id'', PStr ''a'')])
        (snd (set_apps_state io
           (PDict [(''launchPoints'',
                    PList [PDict [(''id'', PStr ''a'')], PDict [(''id'', PStr ''b'')]])])
           s))))
      = [(PStr ''b'', PDict [(''id'', PStr ''b'')])]"
  using set_apps_state_full [where payload = payload and lp = lp and xs = xs and io = io and s = s]
    set_apps_state_removed [where payload = payload and i = i and io = io and s = s]
    set_apps_state_upsert [where payload = payload and c = c and i = i and io = io and s = s]
    set_apps_state_scenario [where ?io1.0 = io and ?io2.0 = io and s = s]
  by blast

theorem set_apps_state_cases_witness:
  "dict_lookup (apps (snd (set_apps_state None
       (PDict [(''launchPoints'',
                PList [PDict [(''id'', PStr ''a'')], PDict [(''id'', PStr ''b'')]])])
       ((init_client PNone None None)\<lparr>apps := [(PStr ''x'', PDict [(''id'', PStr ''x'')])]\<rparr>))))
     (PStr ''x'') = None
   \<and> dict_lookup (apps (snd (set_apps_state None
       (PDict [(''launchPoints'',
                PList [PDict [(''id'', PStr ''a'')], PDict [(''id'', PStr ''b'')]])])
       ((init_client PNone None None)\<lparr>apps := [(PStr ''x'', PDict [(''id'', PStr ''x'')])]\<rparr>))))
     (PStr ''b'') = Some (PDict [(''id'', PStr ''b'')])
   \<and> dict_lookup (apps (snd (set_apps_state None
       (PDict [(''change'', PStr ''removed''), (''id'', PStr ''x'')])
       ((init_client PNone None None)\<lparr>apps := [(PStr ''x'', PDict [(''id'', PStr ''x'')])]\<rparr>))))
     (PStr ''x'') = None
   \<and> dict_lookup (apps (snd (set_apps_state None
       (PDict [(''change'', PStr ''added''), (''id'', PStr ''y'')])
       ((init_client PNone None None)\<lparr>apps := [(PStr ''x'', PDict [(''id'', PStr ''x'')])]\<rparr>))))
     (PStr ''y'') = Some (PDict [(''change'', PStr ''added''), (''id'', PStr ''y'')])"
  using
    set_apps_state_cases [where payload = "PDict [(''launchPoints'',
                PList [PDict [(''id'', PStr ''a'')], PDict [(''id'', PStr ''b'')]])]"
      and lp = "PList [PDict [(''id'', PStr ''a'')], PDict [(''id'', PStr ''b'')]]"
      and xs = "[PDict [(''id'', PStr ''a'')], PDict [(''id'', PStr ''b'')]]"
      and io = None
      and s = "(init_client PNone None None)\<lparr>apps := [(PStr ''x'', PDict [(''id'', PStr ''x'')])]\<rparr>"]
    set_apps_state_cases [where payload = "PDict [(''change'', PStr ''removed''), (''id'', PStr ''x'')]"
      and i = "PStr ''x''" and io = None
      and s = "(init_client PNone None None)\<lparr>apps := [(PStr ''x'', PDict [(''id'', PStr ''x'')])]\<rparr>"]
    set_apps_state_cases [where payload = "PDict [(''change'', PStr ''added''), (''id'', PStr ''y'')]"
      and i = "PStr ''y''" and c = "PStr ''added''" and io = None
      and s = "(init_client PNone None None)\<lparr>apps := [(PStr ''x'', PDict [(''id'', PStr ''x'')])]\<rparr>"]
  by (simp add: init_client_def dict_ok_def app_has_id_def key_eq_def)

subsection \<open>Subscriptions roll back\<close>










subsection \<open>Failures of the input connection\<close>

lemma input_command_except_pending:
  assumes "is_Exception e" "connect_result s = Some r" "\<not> is_done (heap s r)"
  shows "input_command_except e s = Returned (Inr ()) (s\<lparr>heap := (heap s)(r := Raised e)\<rparr>)"
  using assms by (cases "heap s r") (simp_all add: input_command_except_def)

lemma input_command_except_done:
  assumes "is_Exception e" "connect_result s = Some r" "is_done (heap s r)"
  shows "input_command_except e s = Returned (Inr ()) s"
  using assms by (simp add: input_command_except_def)

lemma raised_Some_iff: "raised x = Some e \<longleftrightarrow> (\<exists>s. x = Returned (Inl e) s)"
  by (cases x rule: raised.cases) auto

text \<open>
  C3, as it holds. An exception (other than a cancellation) raised while the input connection
  is opened or written is set on the connect-result future when that future is not done, and
  \<open>input_command\<close> returns normally; when the future is done, the exception is dropped:
  \<open>input_command\<close> returns normally and nothing records it.
\<close>

theorem input_command_failure:
  assumes "is_Exception e"
  shows "(input_connection s = Some w \<and> input_send_io env = Some e \<and> connect_result s = Some r
           \<longrightarrow> input_command ep env message s =
                 Returned (Inr ())
                   (if is_done (heap s r) then s else s\<lparr>heap := (heap s)(r := Raised e)\<rparr>))
       \<and> (raised (input_open ep env s) = Some e
            \<and> connect_result (state_of (input_open ep env s)) = Some r
           \<longrightarrow> input_command ep env message s =
                 Returned (Inr ())
                   (if is_done (heap (state_of (input_open ep env s)) r)
                    then state_of (input_open ep env s)
                    else (state_of (input_open ep env s))
                           \<lparr>heap := (heap (state_of (input_open ep env s)))(r := Raised e)\<rparr>))"
proof -
  have a: "input_connection s = Some w \<and> input_send_io env = Some e \<and> connect_result s = Some r
           \<longrightarrow> input_command ep env message s =
                 Returned (Inr ())
                   (if is_done (heap s r) then s else s\<lparr>heap := (heap s)(r := Raised e)\<rparr>)"
    using assms
    by (auto simp: input_command_def input_open_def input_command_except_pending
        input_command_except_done)
  have b: "input_command ep env message s =
                 Returned (Inr ())
                   (if is_done (heap (state_of (input_open ep env s)) r)
                    then state_of (input_open ep env s)
                    else (state_of (input_open ep env s))
                           \<lparr>heap := (heap (state_of (input_open ep env s)))(r := Raised e)\<rparr>)"
    if "raised (input_open ep env s) = Some e"
      and "connect_result (state_of (input_open ep env s)) = Some r"
  proof -
    from that(1) obtain s1 where s1: "input_open ep env s = Returned (Inl e) s1"
      by (auto simp: raised_Some_iff)
    with that(2) assms show ?thesis
      by (auto simp: input_command_def input_command_except_pending input_command_except_done)
  qed
  from a b show ?thesis by blast
qed

theorem input_command_failure_witness:
  "raised (input_command ''sock''
     \<lparr>sock_env = \<lparr>send_io = None, meanwhile = (\<lambda>x. x), cancelled = False\<rparr>,
      connect_io = Inl TimeoutError, input_send_io = Some ConnectionClosedError\<rparr>
     ''type:click''
     ((init_client (PStr ''key'') None None)\<lparr>connection := Some 0, input_connection := Some 1,
        connect_result := Some 0, next_fid := 1\<rparr>)) = None
   \<and> heap (state_of (input_command ''sock''
     \<lparr>sock_env = \<lparr>send_io = None, meanwhile = (\<lambda>x. x), cancelled = False\<rparr>,
      connect_io = Inl TimeoutError, input_send_io = Some ConnectionClosedError\<rparr>
     ''type:click''
     ((init_client (PStr ''key'') None None)\<lparr>connection := Some 0, input_connection := Some 1,
        connect_result := Some 0, next_fid := 1\<rparr>))) 0 = Raised ConnectionClosedError
   \<and> raised (input_command ''sock''
     \<lparr>sock_env = \<lparr>send_io = None, meanwhile = (\<lambda>x. x), cancelled = False\<rparr>,
      connect_io = Inl TimeoutError, input_send_io = None\<rparr>
     ''type:click''
     ((init_client (PStr ''key'') None None)\<lparr>connect_result := Some 0, next_fid := 1\<rparr>)) = None
   \<and> heap (state_of (input_command ''sock''
     \<lparr>sock_env = \<lparr>send_io = None, meanwhile = (\<lambda>x. x), cancelled = False\<rparr>,
      connect_io = Inl TimeoutError, input_send_io = None\<rparr>
     ''type:click''
     ((init_client (PStr ''key'') None None)\<lparr>connect_result := Some 0, next_fid := 1\<rparr>))) 0
     = Raised (PyLGTVCmdException NotConnected)"
proof -
  let ?req = "\<lparr>send_io = None, meanwhile = (\<lambda>x. x), cancelled = False\<rparr>"
  let ?env1 = "\<lparr>sock_env = ?req, connect_io = Inl TimeoutError,
                input_send_io = Some ConnectionClosedError\<rparr>"
  let ?s1 = "(init_client (PStr ''key'') None None)\<lparr>connection := Some 0,
               input_connection := Some 1, connect_result := Some 0, next_fid := 1\<rparr>"
  let ?env2 = "\<lparr>sock_env = ?req, connect_io = Inl TimeoutError, input_send_io = None\<rparr>"
  let ?s2 = "(init_client (PStr ''key'') None None)\<lparr>connect_result := Some 0, next_fid := 1\<rparr>"
  have o: "raised (input_open ''sock'' ?env2 ?s2) = Some (PyLGTVCmdException NotConnected)"
     "connect_result (state_of (input_open ''sock'' ?env2 ?s2)) = Some 0"
     "heap (state_of (input_open ''sock'' ?env2 ?s2)) 0 = Pending"
    by (simp_all add: input_open_def request_def request_begin_def next_uid_def request_send_def
        command_def del_future_def init_client_def Let_def)
  show ?thesis
    using
      input_command_failure [where e = ConnectionClosedError and s = ?s1 and w = 1 and env = ?env1
        and r = 0 and ep = "''sock''" and message = "''type:click''"]
      input_command_failure [where e = "PyLGTVCmdException NotConnected" and s = ?s2 and env = ?env2
        and r = 0 and ep = "''sock''" and message = "''type:click''"] o
    by (simp add: init_client_def)
qed

text \<open>
  C3, as stated, fails: with a connect-result future that is done (the connection is up), a
  write that raises \<open>ConnectionClosedError\<close> is not surfaced to the caller.
\<close>

theorem input_command_swallows:
  "input_command ''sock''
     \<lparr>sock_env = \<lparr>send_io = None, meanwhile = (\<lambda>x. x), cancelled = False\<rparr>,
      connect_io = Inl TimeoutError, input_send_io = Some ConnectionClosedError\<rparr>
     ''type:click''
     ((init_client (PStr ''key'') None None)\<lparr>connection := Some 0, input_connection := Some 1,
        connect_result := Some 0, heap := (\<lambda>_. Pending)(0 := Resolved (PBool True)), next_fid := 1\<rparr>)
   = Returned (Inr ())
     ((init_client (PStr ''key'') None None)\<lparr>connection := Some 0, input_connection := Some 1,
        connect_result := Some 0, heap := (\<lambda>_. Pending)(0 := Resolved (PBool True)), next_fid := 1\<rparr>)"
  by (simp add: input_command_def input_open_def input_command_except_def init_client_def)


subsection \<open>Teardown\<close>

lemma teardown_mirror:
  "power_state (teardown ws s) = PDict [] \<and> apps (teardown ws s) = []
   \<and> extinputs (teardown ws s) = [] \<and> current_appId (teardown ws s) = PNone
   \<and> muted (teardown ws s) = PNone \<and> volume (teardown ws s) = PNone
   \<and> current_channel (teardown ws s) = PNone \<and> channel_info (teardown ws s) = PNone
   \<and> channels (teardown ws s) = PNone \<and> system_info (teardown ws s) = PNone
   \<and> software_info (teardown ws s) = PNone \<and> sound_output (teardown ws s) = PNone
   \<and> picture_settings (teardown ws s) = PNone"
  by (simp add: teardown_def Let_def)

lemma connect_handler_ends:
  assumes "returned (connect_handler REG env res s)"
  shows "\<exists>ws t. state_of (connect_handler REG env res s) = teardown ws t
            \<or> state_of (connect_handler REG env res s) = closing env (teardown ws t)"
proof -
  obtain st ws tasks s1 where t: "connect_try REG env res s = (st, ws, tasks, s1)"
    by (cases "connect_try REG env res s") auto
  show ?thesis
  proof (cases st)
    case None
    with t assms show ?thesis by (simp add: connect_handler_def)
  next
    case (Some r)
    with t assms show ?thesis
      by (auto simp: connect_handler_def Let_def split: prod.splits if_splits option.splits)
  qed
qed

lemma power_off_connected:
  assumes "connection s = Some ws" and "send_io env = None"
  shows "power_off GET_POWER_STATE POWER_OFF env io s
           = power_off_resume POWER_OFF io (cancelled env) (command_count s) (next_fid s)
               (meanwhile env
                 (s\<lparr>command_count := command_count s + 1,
                    heap := (heap s)(next_fid s := Pending), next_fid := Suc (next_fid s),
                    futures := AList.update (command_count s) (next_fid s) (futures s),
                    sent := sent s @ [build_message (command_count s) ''request''
                                        GET_POWER_STATE (PDict [])]\<rparr>))"
  using request_connected_eq [OF assms, of GET_POWER_STATE PNone "''request''" None]
  by (simp add: power_off_def power_off_resume_def request_resume_def next_uid_def)

text \<open>
  C5. The \<open>finally\<close> block resets every mirrored field (\<open>teardown_mirror\<close>), but the handler then
  waits for the closeout, and a task that runs during that wait can write a mirrored field
  after the reset. Here \<open>power_off\<close> has sent its request for the power state and the reply
  has reached its future when \<open>disconnect\<close> cancels the handler: the teardown resets the
  mirror and cannot cancel the future, which is done; \<open>power_off\<close> resumes during the
  closeout and stores the reply as the power state. When the handler has ended, the mirrored
  power state is that reply and not \<open>{}\<close>.
\<close>

theorem teardown_leaves_stale_power_state:
  "raised (connect_handler (PDict [(''type'', PStr ''register''), (''payload'', PDict [])])
      \<lparr>open_io = Inr 0, register_io = None,
       recv1 = Inr (PDict [(''type'', PStr ''registered''),
                           (''payload'', PDict [(''client-key'', PStr ''key'')])]),
       recv2 = Inl ConnectionClosedError, write_key_io = None,
       sub_env = \<lparr>send_io = None, meanwhile = (\<lambda>x. x), cancelled = False\<rparr>,
       observers_io = None, run_io = Some (Some CancelledError),
       running = (\<lambda>x. case request_begin None x of
           (uid, res, x1) \<Rightarrow>
             snd (snd (consumer_step
               (PDict [(''id'', PInt 0), (''type'', PStr ''response''),
                       (''payload'', PDict [(''returnValue'', PBool True),
                                            (''state'', PStr ''Active'')])])
               (no_dispatch,
                snd (request_send None ''request'' ''com.webos.service.tvpower/power/getPowerState''
                       PNone uid x1))))),
       closing = (\<lambda>x. state_of (power_off_resume ''system/turnOff'' None False 0 1 x)),
       closeout_io = Some None\<rparr>
      0
      ((init_client (PStr ''key'') (Some 1) None)\<lparr>connect_result := Some 0, next_fid := 1\<rparr>)) = Some CancelledError
   \<and> power_state (state_of (connect_handler (PDict [(''type'', PStr ''register''), (''payload'', PDict [])])
      \<lparr>open_io = Inr 0, register_io = None,
       recv1 = Inr (PDict [(''type'', PStr ''registered''),
                           (''payload'', PDict [(''client-key'', PStr ''key'')])]),
       recv2 = Inl ConnectionClosedError, write_key_io = None,
       sub_env = \<lparr>send_io = None, meanwhile = (\<lambda>x. x), cancelled = False\<rparr>,
       observers_io = None, run_io = Some (Some CancelledError),
       running = (\<lambda>x. case request_begin None x of
           (uid, res, x1) \<Rightarrow>
             snd (snd (consumer_step
               (PDict [(''id'', PInt 0), (''type'', PStr ''response''),
                       (''payload'', PDict [(''returnValue'', PBool True),
                                            (''state'', PStr ''Active'')])])
               (no_dispatch,
                snd (request_send None ''request'' ''com.webos.service.tvpower/power/getPowerState''
                       PNone uid x1))))),
       closing = (\<lambda>x. state_of (power_off_resume ''system/turnOff'' None False 0 1 x)),
       closeout_io = Some None\<rparr>
      0
      ((init_client (PStr ''key'') (Some 1) None)\<lparr>connect_result := Some 0, next_fid := 1\<rparr>)))
       = PDict [(''returnValue'', PBool True), (''state'', PStr ''Active'')]"
  by (simp add: connect_handler_def connect_try_def registration_msg_def rbind_def py_setitem_def
      pairing_def prompt_reply_def connect_subscribing_def subscribe_coros_def
      do_state_update_callbacks_def teardown_def cancel_futures_def init_client_def Let_def
      request_begin_def next_uid_def request_send_def command_def build_message_def
      consumer_step_def table_get_def no_dispatch_def
      power_off_resume_def request_resume_def request_await_def del_future_def
      request_reply_def power_off_tail_def is_on_def)


subsection \<open>The subscribing phase\<close>

lemma connect_subscribing_ready:
  assumes "connect_subscribing env ws res s = (Some None, tasks, s')"
  shows "callbacks s' = [] \<and> futures s' = [] \<and> sent s' = sent s
     \<and> tasks = ConsumerHandler ws # (if ping_interval s = None then [] else [PingHandler ws])
     \<and> connection s' = Some ws \<and> doStateUpdate s'
     \<and> power_state s' = (if truthy (power_state s) then power_state s
                           else PDict [(''state'', PStr ''Unknown'')])
     \<and> notified s' = notified s @ state_update_callbacks s
     \<and> heap s' res = Resolved (PBool True)"
  using assms
  by (auto simp: connect_subscribing_def subscribe_coros_def Let_def do_state_update_callbacks_def
       split: if_splits sum.splits option.splits fstate.splits elim!: set_result.elims)

text \<open>
  C1, as stated, fails: on a connection attempt that succeeds (the ready flag is set and the
  connect result is \<open>True\<close>) the callbacks table is empty and the registration is the only
  frame written. No subscription was issued.
\<close>

theorem connect_ready_without_subscriptions:
  "doStateUpdate (state_of (connect_handler (PDict [(''type'', PStr ''register''), (''payload'', PDict [])])
      \<lparr>open_io = Inr 0, register_io = None,
       recv1 = Inr (PDict [(''type'', PStr ''registered''),
                           (''payload'', PDict [(''client-key'', PStr ''key'')])]),
       recv2 = Inl ConnectionClosedError, write_key_io = None,
       sub_env = \<lparr>send_io = None, meanwhile = (\<lambda>x. x), cancelled = False\<rparr>,
       observers_io = None, run_io = None,
       running = (\<lambda>x. x\<lparr>volume := PInt 10, apps := [(PStr ''a'', PDict [(''id'', PStr ''a'')])]\<rparr>),
       closing = (\<lambda>x. x), closeout_io = Some None\<rparr>
      0 ((init_client (PStr ''key'') (Some 1) None)\<lparr>connect_result := Some 0, next_fid := 1\<rparr>)))
   \<and> heap (state_of (connect_handler (PDict [(''type'', PStr ''register''), (''payload'', PDict [])])
      \<lparr>open_io = Inr 0, register_io = None,
       recv1 = Inr (PDict [(''type'', PStr ''registered''),
                           (''payload'', PDict [(''client-key'', PStr ''key'')])]),
       recv2 = Inl ConnectionClosedError, write_key_io = None,
       sub_env = \<lparr>send_io = None, meanwhile = (\<lambda>x. x), cancelled = False\<rparr>,
       observers_io = None, run_io = None,
       running = (\<lambda>x. x\<lparr>volume := PInt 10, apps := [(PStr ''a'', PDict [(''id'', PStr ''a'')])]\<rparr>),
       closing = (\<lambda>x. x), closeout_io = Some None\<rparr>
      0 ((init_client (PStr ''key'') (Some 1) None)\<lparr>connect_result := Some 0, next_fid := 1\<rparr>))) 0 = Resolved (PBool True)
   \<and> callbacks (state_of (connect_handler (PDict [(''type'', PStr ''register''), (''payload'', PDict [])])
      \<lparr>open_io = Inr 0, register_io = None,
       recv1 = Inr (PDict [(''type'', PStr ''registered''),
                           (''payload'', PDict [(''client-key'', PStr ''key'')])]),
       recv2 = Inl ConnectionClosedError, write_key_io = None,
       sub_env = \<lparr>send_io = None, meanwhile = (\<lambda>x. x), cancelled = False\<rparr>,
       observers_io = None, run_io = None,
       running = (\<lambda>x. x\<lparr>volume := PInt 10, apps := [(PStr ''a'', PDict [(''id'', PStr ''a'')])]\<rparr>),
       closing = (\<lambda>x. x), closeout_io = Some None\<rparr>
      0 ((init_client (PStr ''key'') (Some 1) None)\<lparr>connect_result := Some 0, next_fid := 1\<rparr>))) = []
   \<and> sent (state_of (connect_handler (PDict [(''type'', PStr ''register''), (''payload'', PDict [])])
      \<lparr>open_io = Inr 0, register_io = None,
       recv1 = Inr (PDict [(''type'', PStr ''registered''),
                           (''payload'', PDict [(''client-key'', PStr ''key'')])]),
       recv2 = Inl ConnectionClosedError, write_key_io = None,
       sub_env = \<lparr>send_io = None, meanwhile = (\<lambda>x. x), cancelled = False\<rparr>,
       observers_io = None, run_io = None,
       running = (\<lambda>x. x\<lparr>volume := PInt 10, apps := [(PStr ''a'', PDict [(''id'', PStr ''a'')])]\<rparr>),
       closing = (\<lambda>x. x), closeout_io = Some None\<rparr>
      0 ((init_client (PStr ''key'') (Some 1) None)\<lparr>connect_result := Some 0, next_fid := 1\<rparr>)))
       = [PDict [(''type'', PStr ''register''), (''payload'', PDict [(''client-key'', PStr ''key'')])]]"
  by (simp add: connect_handler_def connect_try_def registration_msg_def rbind_def py_setitem_def pairing_def
        prompt_reply_def connect_subscribing_def subscribe_coros_def do_state_update_callbacks_def
        teardown_def cancel_futures_def init_client_def Let_def)

text \<open>
  C1, as it holds. When the subscribing phase reaches ready, the two tables were reset and
  are empty (no baseline subscription is issued: the collection of subscriptions is empty in
  the source), no frame was written, the dispatcher was started, and the keepalive monitor
  if and only if a ping interval is configured; the connection is set, the power state has
  its placeholder when there was none, the ready flag is set, the state-update callbacks
  were called once, and the connect result is \<open>True\<close>.
\<close>

theorem connect_subscribing_ready_state:
  assumes "fst (connect_subscribing env ws res s) = Some None"
  shows "callbacks (snd (snd (connect_subscribing env ws res s))) = []
     \<and> futures (snd (snd (connect_subscribing env ws res s))) = []
     \<and> sent (snd (snd (connect_subscribing env ws res s))) = sent s
     \<and> fst (snd (connect_subscribing env ws res s))
         = ConsumerHandler ws # (if ping_interval s = None then [] else [PingHandler ws])
     \<and> connection (snd (snd (connect_subscribing env ws res s))) = Some ws
     \<and> doStateUpdate (snd (snd (connect_subscribing env ws res s)))
     \<and> power_state (snd (snd (connect_subscribing env ws res s)))
         = (if truthy (power_state s) then power_state s else PDict [(''state'', PStr ''Unknown'')])
     \<and> notified (snd (snd (connect_subscribing env ws res s))) = notified s @ state_update_callbacks s
     \<and> heap (snd (snd (connect_subscribing env ws res s))) res = Resolved (PBool True)"
proof -
  obtain st tasks s' where c: "connect_subscribing env ws res s = (st, tasks, s')"
    by (cases "connect_subscribing env ws res s") auto
  with assms have "connect_subscribing env ws res s = (Some None, tasks, s')" by simp
  from connect_subscribing_ready [OF this] c show ?thesis by simp
qed

theorem connect_subscribing_ready_state_witness:
  "fst (connect_subscribing
      \<lparr>open_io = Inr 0, register_io = None,
       recv1 = Inr (PDict [(''type'', PStr ''registered''),
                           (''payload'', PDict [(''client-key'', PStr ''key'')])]),
       recv2 = Inl ConnectionClosedError, write_key_io = None,
       sub_env = \<lparr>send_io = None, meanwhile = (\<lambda>x. x), cancelled = False\<rparr>,
       observers_io = None, run_io = None,
       running = (\<lambda>x. x\<lparr>volume := PInt 10, apps := [(PStr ''a'', PDict [(''id'', PStr ''a'')])]\<rparr>),
       closing = (\<lambda>x. x), closeout_io = Some None\<rparr>
      0 0 ((init_client (PStr ''key'') (Some 1) None)\<lparr>connect_result := Some 0, next_fid := 1\<rparr>)) = Some None
   \<and> callbacks (snd (snd (connect_subscribing
      \<lparr>open_io = Inr 0, register_io = None,
       recv1 = Inr (PDict [(''type'', PStr ''registered''),
                           (''payload'', PDict [(''client-key'', PStr ''key'')])]),
       recv2 = Inl ConnectionClosedError, write_key_io = None,
       sub_env = \<lparr>send_io = None, meanwhile = (\<lambda>x. x), cancelled = False\<rparr>,
       observers_io = None, run_io = None,
       running = (\<lambda>x. x\<lparr>volume := PInt 10, apps := [(PStr ''a'', PDict [(''id'', PStr ''a'')])]\<rparr>),
       closing = (\<lambda>x. x), closeout_io = Some None\<rparr>
      0 0 ((init_client (PStr ''key'') (Some 1) None)\<lparr>connect_result := Some 0, next_fid := 1\<rparr>)))) = []
   \<and> fst (snd (connect_subscribing
      \<lparr>open_io = Inr 0, register_io = None,
       recv1 = Inr (PDict [(''type'', PStr ''registered''),
                           (''payload'', PDict [(''client-key'', PStr ''key'')])]),
       recv2 = Inl ConnectionClosedError, write_key_io = None,
       sub_env = \<lparr>send_io = None, meanwhile = (\<lambda>x. x), cancelled = False\<rparr>,
       observers_io = None, run_io = None,
       running = (\<lambda>x. x\<lparr>volume := PInt 10, apps := [(PStr ''a'', PDict [(''id'', PStr ''a'')])]\<rparr>),
       closing = (\<lambda>x. x), closeout_io = Some None\<rparr>
      0 0 ((init_client (PStr ''key'') (Some 1) None)\<lparr>connect_result := Some 0, next_fid := 1\<rparr>))) = [ConsumerHandler 0, PingHandler 0]"
proof -
  have r: "fst (connect_subscribing
      \<lparr>open_io = Inr 0, register_io = None,
       recv1 = Inr (PDict [(''type'', PStr ''registered''),
                           (''payload'', PDict [(''client-key'', PStr ''key'')])]),
       recv2 = Inl ConnectionClosedError, write_key_io = None,
       sub_env = \<lparr>send_io = None, meanwhile = (\<lambda>x. x), cancelled = False\<rparr>,
       observers_io = None, run_io = None,
       running = (\<lambda>x. x\<lparr>volume := PInt 10, apps := [(PStr ''a'', PDict [(''id'', PStr ''a'')])]\<rparr>),
       closing = (\<lambda>x. x), closeout_io = Some None\<rparr>
      0 0 ((init_client (PStr ''key'') (Some 1) None)\<lparr>connect_result := Some 0, next_fid := 1\<rparr>)) = Some None"
    by (simp add: connect_subscribing_def subscribe_coros_def do_state_update_callbacks_def
        init_client_def Let_def)
  show ?thesis
    using r connect_subscribing_ready_state [OF r]
    by (simp add: init_client_def)
qed


subsection \<open>Volume steps\<close>















end
